theory Spec2Isabelle
  imports Main "HOL-Library.Word"
begin

section \<open>Values and errors\<close>

type_synonym byte = "8 word"

text \<open>
  Every \<^verbatim>\<open>throw new Error(...)\<close> of \<^verbatim>\<open>src/util/Authentication.js\<close> is one constructor;
  \<open>LibraryError\<close> stands for a rejection coming out of the bcrypt package and
  \<open>StoreError\<close> for one coming out of knex.
\<close>

datatype error =
    KnexNotInitiated
  | UsernamePasswordRequired
  | TokenStringRequired
  | SIDRequired
  | UsernameRequired
  | SessionIdRequired
  | LibraryError string
  | StoreError string

text \<open>
  A string argument of a JavaScript call is either absent (\<open>None\<close>, the value
  \<^verbatim>\<open>undefined\<close>) or a string. \<^verbatim>\<open>!v\<close> holds for \<^verbatim>\<open>undefined\<close> and for the empty string.
\<close>

definition truthy :: "string option \<Rightarrow> bool" where
  "truthy v = (case v of None \<Rightarrow> False | Some s \<Rightarrow> s \<noteq> [])"

text \<open>\<^verbatim>\<open>arr[i]\<close>: \<^verbatim>\<open>undefined\<close> out of range.\<close>

definition nth_opt :: "'a list \<Rightarrow> nat \<Rightarrow> 'a option" where
  "nth_opt xs i = (if i < length xs then Some (xs ! i) else None)"

text \<open>\<^verbatim>\<open>s.split(c)\<close> for a one-character separator: always at least one segment.\<close>

fun split :: "string \<Rightarrow> char \<Rightarrow> string list" where
  "split [] c = [[]]"
| "split (x # xs) c =
     (if x = c then [] # split xs c
      else (case split xs c of [] \<Rightarrow> [[x]] | y # ys \<Rightarrow> (x # y) # ys))"

text \<open>\<^verbatim>\<open>Buffer.toString("hex")\<close>: two lowercase hexadecimal digits per byte.\<close>

definition hex_digits :: string where
  "hex_digits = ''0123456789abcdef''"

definition hex_byte :: "byte \<Rightarrow> string" where
  "hex_byte b = [hex_digits ! (unat b div 16), hex_digits ! (unat b mod 16)]"

definition toString_hex :: "byte list \<Rightarrow> string" where
  "toString_hex bs = concat (map hex_byte bs)"

section \<open>The store behind the knex handle and the platform's random generator\<close>

record user_row =
  u_uuid :: string
  u_username :: string
  u_password :: string

record session_row =
  s_session_id :: string
  s_token :: string
  s_uuid :: string

text \<open>The statements sent through knex, in the order they are issued.\<close>

datatype query =
    UsersWhereUsername string
  | UsersWhereUuid "string option"
  | UsersInsert user_row
  | SessionsWhereSid string
  | SessionsInsert session_row
  | SessionsDel string

text \<open>
  The world outside the \<^verbatim>\<open>Authentication\<close> object: the two tables (rows in insertion
  order), the log of statements issued, and the output of the cryptographically secure
  generator as a sequence of bytes of which \<open>drawn\<close> have been consumed.
\<close>

record world =
  users :: "user_row list"
  sessions :: "session_row list"
  queries :: "query list"
  entropy :: "nat \<Rightarrow> byte"
  drawn :: nat

text \<open>\<^verbatim>\<open>crypto.randomBytes(n)\<close>: the next \<open>n\<close> bytes of the generator.\<close>

definition randomBytes :: "nat \<Rightarrow> world \<Rightarrow> byte list \<times> world" where
  "randomBytes n w = (map (entropy w) [drawn w ..< drawn w + n], w\<lparr>drawn := drawn w + n\<rparr>)"

definition issue :: "query \<Rightarrow> world \<Rightarrow> world" where
  "issue q w = w\<lparr>queries := queries w @ [q]\<rparr>"

text \<open>\<^verbatim>\<open>knex("users").select(...).where("username", u)\<close>: all matching rows.\<close>

definition users_where_username :: "string \<Rightarrow> world \<Rightarrow> user_row list \<times> world" where
  "users_where_username u w =
     (filter (\<lambda>r. u_username r = u) (users w), issue (UsersWhereUsername u) w)"

text \<open>
  \<^verbatim>\<open>knex("users").select(...).where("uuid", v)\<close>, where \<open>v\<close> is a string or \<^verbatim>\<open>false\<close>
  (\<open>None\<close>); \<^verbatim>\<open>false\<close> is taken to match no row.
\<close>

definition users_where_uuid :: "string option \<Rightarrow> world \<Rightarrow> user_row list \<times> world" where
  "users_where_uuid v w =
     (filter (\<lambda>r. Some (u_uuid r) = v) (users w), issue (UsersWhereUuid v) w)"

definition users_insert :: "user_row \<Rightarrow> world \<Rightarrow> world" where
  "users_insert row w = issue (UsersInsert row) (w\<lparr>users := users w @ [row]\<rparr>)"

text \<open>\<^verbatim>\<open>knex("sessions").where({session_id: sid}).first()\<close>: the first matching row.\<close>

definition sessions_where_first :: "string \<Rightarrow> world \<Rightarrow> session_row option \<times> world" where
  "sessions_where_first sid w =
     (find (\<lambda>r. s_session_id r = sid) (sessions w), issue (SessionsWhereSid sid) w)"

definition sessions_insert :: "session_row \<Rightarrow> world \<Rightarrow> world" where
  "sessions_insert row w = issue (SessionsInsert row) (w\<lparr>sessions := sessions w @ [row]\<rparr>)"

text \<open>\<^verbatim>\<open>knex("sessions").where({session_id: sid}).del()\<close>: the number of rows deleted.\<close>

definition sessions_where_del :: "string \<Rightarrow> world \<Rightarrow> nat \<times> world" where
  "sessions_where_del sid w =
     (length (filter (\<lambda>r. s_session_id r = sid) (sessions w)),
      issue (SessionsDel sid) (w\<lparr>sessions := filter (\<lambda>r. s_session_id r \<noteq> sid) (sessions w)\<rparr>))"

section \<open>The packages the class requires\<close>

text \<open>
  \<^verbatim>\<open>bcrypt\<close> and \<^verbatim>\<open>uuid\<close> are not code of this repository; they are parameters.
  \<open>bcrypt_hash data rounds salt\<close> is \<^verbatim>\<open>bcrypt.hash(data, rounds)\<close> for the salt the
  package draws, \<open>bcrypt_compare data hash\<close> is \<^verbatim>\<open>bcrypt.compare(data, hash)\<close>, whose
  promise resolves to a boolean or rejects, and \<open>uuidv4 bytes\<close> is \<^verbatim>\<open>uuidv4()\<close> for the
  random bytes the package draws. Both packages draw 16 bytes from the platform generator.
\<close>

record libs =
  bcrypt_hash :: "string \<Rightarrow> nat \<Rightarrow> byte list \<Rightarrow> string"
  bcrypt_compare :: "string option \<Rightarrow> string \<Rightarrow> error + bool"
  uuidv4 :: "byte list \<Rightarrow> string"

section \<open>class Authentication\<close>

text \<open>
  The two fields set by the constructor. \<open>knex\<close> is the truth value of \<^verbatim>\<open>this.knex\<close>:
  whether a handle was given.
\<close>

record Authentication =
  knex :: bool
  tokenHashing :: bool

datatype register_result = ResError string | ResSuccess

datatype login_result = Failed | Token string

definition userExists ::
  "Authentication \<Rightarrow> string option \<Rightarrow> world \<Rightarrow> (error + bool) \<times> world" where
  "userExists a username w =
     (if \<not> knex a then (Inl KnexNotInitiated, w)
      else if \<not> truthy username then (Inl UsernameRequired, w)
      else
        let exists = find (\<lambda>r. u_username r = the username) (users w);
            w1 = issue (UsersWhereUsername (the username)) w
        in (Inr (exists \<noteq> None), w1))"

definition register ::
  "libs \<Rightarrow> Authentication \<Rightarrow> string option \<Rightarrow> string option \<Rightarrow> world
     \<Rightarrow> (error + register_result) \<times> world" where
  "register L a username pwdUnhashed w =
     (if \<not> knex a then (Inl KnexNotInitiated, w)
      else if \<not> truthy username \<or> \<not> truthy pwdUnhashed then (Inl UsernamePasswordRequired, w)
      else
        let (ub, w1) = randomBytes 16 w;
            uuid = uuidv4 L ub;
            (salt, w2) = randomBytes 16 w1;
            password = bcrypt_hash L (the pwdUnhashed) 12 salt;
            (exists, w3) = userExists a username w2
        in case exists of
             Inl e \<Rightarrow> (Inl e, w3)
           | Inr True \<Rightarrow> (Inr (ResError ''An account with this username already exists''), w3)
           | Inr False \<Rightarrow>
               (Inr ResSuccess,
                users_insert \<lparr>u_uuid = uuid, u_username = the username, u_password = password\<rparr> w3))"

definition login ::
  "libs \<Rightarrow> Authentication \<Rightarrow> string option \<Rightarrow> string option \<Rightarrow> world
     \<Rightarrow> (error + login_result) \<times> world" where
  "login L a username password w =
     (if \<not> knex a then (Inl KnexNotInitiated, w)
      else if \<not> truthy username \<or> \<not> truthy password then (Inl UsernamePasswordRequired, w)
      else
        let (rows, w1) = users_where_username (the username) w
        in case rows of
             [] \<Rightarrow> (Inr Failed, w1)
           | user # _ \<Rightarrow>
               (case bcrypt_compare L password (u_password user) of
                  Inl e \<Rightarrow> (Inl e, w1)
                | Inr False \<Rightarrow> (Inr Failed, w1)
                | Inr True \<Rightarrow>
                    let uuid = u_uuid user;
                        (sb, w2) = randomBytes 8 w1;
                        sid = toString_hex sb;
                        (tb, w3) = randomBytes 30 w2;
                        token = toString_hex tb;
                        (tokenHash, w4) =
                          (if tokenHashing a
                           then let (salt, w') = randomBytes 16 w3
                                in (bcrypt_hash L token 10 salt, w')
                           else (token, w3));
                        w5 = sessions_insert
                               \<lparr>s_session_id = sid, s_token = tokenHash, s_uuid = uuid\<rparr> w4
                    in (Inr (Token (sid @ ''.'' @ token)), w5)))"

definition verifyToken ::
  "libs \<Rightarrow> Authentication \<Rightarrow> string option \<Rightarrow> world \<Rightarrow> (error + bool) \<times> world" where
  "verifyToken L a tokenString w =
     (if \<not> knex a then (Inl KnexNotInitiated, w)
      else if \<not> truthy tokenString then (Inl TokenStringRequired, w)
      else
        let parts = split (the tokenString) CHR ''.'';
            sid = hd parts;
            tok = nth_opt parts 1;
            (sidMatch, w1) = sessions_where_first sid w
        in case sidMatch of
             None \<Rightarrow> (Inr False, w1)
           | Some m \<Rightarrow>
               let matchTokenHash = s_token m
               in if tokenHashing a then (bcrypt_compare L tok matchTokenHash, w1)
                  else (Inr (tok = Some matchTokenHash), w1))"

definition logout ::
  "Authentication \<Rightarrow> string option \<Rightarrow> world \<Rightarrow> (error + unit) \<times> world" where
  "logout a sid w =
     (if \<not> knex a then (Inl KnexNotInitiated, w)
      else if \<not> truthy sid then (Inl SIDRequired, w)
      else
        let (deletedRows, w1) = sessions_where_del (the sid) w
        in (Inr (), w1))"

text \<open>The result is the owner's uuid, or \<^verbatim>\<open>false\<close> (\<open>None\<close>).\<close>

definition getUserIdFromSessionId ::
  "Authentication \<Rightarrow> string option \<Rightarrow> world \<Rightarrow> (error + string option) \<times> world" where
  "getUserIdFromSessionId a sid w =
     (if \<not> knex a then (Inl KnexNotInitiated, w)
      else if \<not> truthy sid then (Inl SessionIdRequired, w)
      else
        let (sidMatch, w1) = sessions_where_first (the sid) w
        in case sidMatch of
             Some m \<Rightarrow> (Inr (Some (s_uuid m)), w1)
           | None \<Rightarrow> (Inr None, w1))"

subsection \<open>The express middleware\<close>

record request =
  headers_authorization :: "string option"

text \<open>\<^verbatim>\<open>req.eauth\<close> as the middleware builds it: \<^verbatim>\<open>{user: {username, id, token}}\<close>.\<close>

record eauth_user =
  eu_username :: string
  eu_id :: "string option"
  eu_token :: string

record eauth =
  eauth_user :: eauth_user

text \<open>
  What the middleware does with the request: \<^verbatim>\<open>res.status(n).json({message: m})\<close>, or
  \<^verbatim>\<open>next()\<close> with \<^verbatim>\<open>req.eauth\<close> attached.
\<close>

datatype outcome = Respond nat string | Next eauth

definition unauthorized :: outcome where
  "unauthorized = Respond 401 ''Unauthorized''"

definition express_middleware ::
  "libs \<Rightarrow> Authentication \<Rightarrow> request \<Rightarrow> world \<Rightarrow> outcome \<times> world" where
  "express_middleware L a req w =
     (let token = (case headers_authorization req of
                     None \<Rightarrow> None
                   | Some h \<Rightarrow> nth_opt (split h CHR '' '') 1)
      in if \<not> truthy token then (unauthorized, w)
         else
           (case verifyToken L a token w of
              (Inl e, w1) \<Rightarrow> (unauthorized, w1)
            | (Inr False, w1) \<Rightarrow> (unauthorized, w1)
            | (Inr True, w1) \<Rightarrow>
                let auth_sid = hd (split (the token) CHR ''.'')
                in (case getUserIdFromSessionId a (Some auth_sid) w1 of
                      (Inl e, w2) \<Rightarrow> (unauthorized, w2)
                    | (Inr confirmedUuid, w2) \<Rightarrow>
                        let (rows, w3) = users_where_uuid confirmedUuid w2
                        in (case rows of
                              [] \<Rightarrow> (unauthorized, w3)
                            | user # _ \<Rightarrow>
                                (Next \<lparr>eauth_user =
                                         \<lparr>eu_username = u_username user,
                                          eu_id = confirmedUuid,
                                          eu_token = the token\<rparr>\<rparr>, w3)))))"

text \<open>
  The bearer token the middleware reads: \<^verbatim>\<open>req.headers.authorization?.split(" ")[1]\<close>.
\<close>

definition request_token :: "request \<Rightarrow> string option" where
  "request_token req =
     (case headers_authorization req of
        None \<Rightarrow> None
      | Some h \<Rightarrow> nth_opt (split h CHR '' '') 1)"

text \<open>
  The \<^verbatim>\<open>try\<close> block once more, with its three awaited calls as parameters, each of which
  may resolve or throw anything: \<^verbatim>\<open>this.verifyToken\<close>, \<^verbatim>\<open>this.getUserIdFromSessionId\<close> and
  the query on the users table. \<open>users_by_uuid\<close> is that query on the store of this model,
  which always resolves.
\<close>

definition users_by_uuid :: "string option \<Rightarrow> world \<Rightarrow> (error + user_row list) \<times> world" where
  "users_by_uuid v w = (case users_where_uuid v w of (rows, w') \<Rightarrow> (Inr rows, w'))"

definition middleware_body ::
  "(string option \<Rightarrow> world \<Rightarrow> (error + bool) \<times> world)
   \<Rightarrow> (string option \<Rightarrow> world \<Rightarrow> (error + string option) \<times> world)
   \<Rightarrow> (string option \<Rightarrow> world \<Rightarrow> (error + user_row list) \<times> world)
   \<Rightarrow> request \<Rightarrow> world \<Rightarrow> outcome \<times> world" where
  "middleware_body verify owner lookup req w =
     (let token = (case headers_authorization req of
                     None \<Rightarrow> None
                   | Some h \<Rightarrow> nth_opt (split h CHR '' '') 1)
      in if \<not> truthy token then (unauthorized, w)
         else
           (case verify token w of
              (Inl e, w1) \<Rightarrow> (unauthorized, w1)
            | (Inr False, w1) \<Rightarrow> (unauthorized, w1)
            | (Inr True, w1) \<Rightarrow>
                let auth_sid = hd (split (the token) CHR ''.'')
                in (case owner (Some auth_sid) w1 of
                      (Inl e, w2) \<Rightarrow> (unauthorized, w2)
                    | (Inr confirmedUuid, w2) \<Rightarrow>
                        (case lookup confirmedUuid w2 of
                           (Inl e, w3) \<Rightarrow> (unauthorized, w3)
                         | (Inr rows, w3) \<Rightarrow>
                             (case rows of
                                [] \<Rightarrow> (unauthorized, w3)
                              | user # _ \<Rightarrow>
                                  (Next \<lparr>eauth_user =
                                           \<lparr>eu_username = u_username user,
                                            eu_id = confirmedUuid,
                                            eu_token = the token\<rparr>\<rparr>, w3))))))"

section \<open>Notions used in the statements\<close>

subsection \<open>What \<open>login\<close> and \<open>register\<close> draw from the generator\<close>

text \<open>
  \<open>login\<close> draws the session id, then the secret, then (with token hashing) the salt of
  \<^verbatim>\<open>bcrypt.hash(token, 10)\<close>; the lookup that precedes the draws leaves the generator alone.
  \<open>login_session\<close> is the row it inserts for the user row \<open>r\<close> it found.
\<close>

definition login_sid :: "world \<Rightarrow> string" where
  "login_sid w = toString_hex (fst (randomBytes 8 w))"

definition login_secret :: "world \<Rightarrow> string" where
  "login_secret w = toString_hex (fst (randomBytes 30 (snd (randomBytes 8 w))))"

definition login_salt :: "world \<Rightarrow> byte list" where
  "login_salt w = fst (randomBytes 16 (snd (randomBytes 30 (snd (randomBytes 8 w)))))"

definition login_session :: "libs \<Rightarrow> Authentication \<Rightarrow> world \<Rightarrow> user_row \<Rightarrow> session_row" where
  "login_session L a w r =
     \<lparr>s_session_id = login_sid w,
      s_token = (if tokenHashing a then bcrypt_hash L (login_secret w) 10 (login_salt w)
                 else login_secret w),
      s_uuid = u_uuid r\<rparr>"

text \<open>
  \<open>register\<close> draws the bytes of the uuid, then the salt of \<^verbatim>\<open>bcrypt.hash(pwdUnhashed, 12)\<close>;
  \<open>register_row\<close> is the row it inserts.
\<close>

definition register_uuid :: "libs \<Rightarrow> world \<Rightarrow> string" where
  "register_uuid L w = uuidv4 L (fst (randomBytes 16 w))"

definition register_salt :: "world \<Rightarrow> byte list" where
  "register_salt w = fst (randomBytes 16 (snd (randomBytes 16 w)))"

definition register_row :: "libs \<Rightarrow> world \<Rightarrow> string \<Rightarrow> string \<Rightarrow> user_row" where
  "register_row L w u p =
     \<lparr>u_uuid = register_uuid L w, u_username = u,
      u_password = bcrypt_hash L p 12 (register_salt w)\<rparr>"

subsection \<open>Conditions on the store and on bcrypt\<close>

text \<open>
  An identity \<open>(u, p)\<close> is present when the row \<open>login\<close> reads for \<open>u\<close> (the first one with
  that username) holds a hash that \<^verbatim>\<open>bcrypt.compare\<close> accepts for \<open>p\<close>. The session id that the
  next \<open>login\<close> draws is fresh when no stored session has it.
\<close>

definition identity_present :: "libs \<Rightarrow> world \<Rightarrow> string \<Rightarrow> string \<Rightarrow> bool" where
  "identity_present L w u p =
     (case find (\<lambda>r. u_username r = u) (users w) of
        None \<Rightarrow> False
      | Some r \<Rightarrow> bcrypt_compare L (Some p) (u_password r) = Inr True)"

definition sid_fresh :: "world \<Rightarrow> bool" where
  "sid_fresh w = (find (\<lambda>r. s_session_id r = login_sid w) (sessions w) = None)"

text \<open>
  Two properties of the bcrypt package that the code relies on and cannot establish itself:
  \<^verbatim>\<open>compare\<close> accepts every hash that \<^verbatim>\<open>hash\<close> produced for the same data, and a hash is
  never its own input.
\<close>

definition bcrypt_sound :: "libs \<Rightarrow> bool" where
  "bcrypt_sound L = (\<forall>d r s. bcrypt_compare L (Some d) (bcrypt_hash L d r s) = Inr True)"

definition bcrypt_hides :: "libs \<Rightarrow> bool" where
  "bcrypt_hides L = (\<forall>d r s. bcrypt_hash L d r s \<noteq> d)"

text \<open>
  The object \<open>register\<close> returns when the username is taken.
\<close>

definition conflict :: register_result where
  "conflict = ResError ''An account with this username already exists''"

subsection \<open>The columns that are not secret\<close>

text \<open>
  A session row without its stored token, and a user row without its stored password hash.
\<close>

definition public_session :: "session_row \<Rightarrow> string \<times> string" where
  "public_session r = (s_session_id r, s_uuid r)"

definition public_user :: "user_row \<Rightarrow> string \<times> string" where
  "public_user r = (u_uuid r, u_username r)"

subsection \<open>A worked scenario\<close>

text \<open>
  A stand-in for the two packages (a hash is the salt in hexadecimal, a dollar sign and the
  data; \<^verbatim>\<open>compare\<close> rejects an undefined argument as the bcrypt package does), a generator
  that counts 0, 1, 2, ..., and the scenario of the specification: \<open>alice\<close> registers with
  \<open>S3cret!\<close> in an empty store and logs in.
\<close>

definition sample_libs :: libs where
  "sample_libs =
     \<lparr>bcrypt_hash = (\<lambda>d r s. toString_hex s @ ''$'' @ d),
      bcrypt_compare =
        (\<lambda>d h. case d of
                  None \<Rightarrow> Inl (LibraryError ''data and hash arguments required'')
                | Some p \<Rightarrow> Inr (tl (dropWhile (\<lambda>c. c \<noteq> CHR ''$'') h) = p)),
      uuidv4 = toString_hex\<rparr>"

definition sample_world :: world where
  "sample_world = \<lparr>users = [], sessions = [], queries = [], entropy = (\<lambda>i. of_nat i), drawn = 0\<rparr>"

definition sample_auth :: "bool \<Rightarrow> Authentication" where
  "sample_auth h = \<lparr>knex = True, tokenHashing = h\<rparr>"

definition alice_world :: world where
  "alice_world =
     snd (register sample_libs (sample_auth True) (Some ''alice'') (Some ''S3cret!'') sample_world)"

definition alice_sid :: string where
  "alice_sid = ''2021222324252627''"

definition alice_secret :: string where
  "alice_secret = ''28292a2b2c2d2e2f303132333435363738393a3b3c3d3e3f404142434445''"

definition alice_token :: string where
  "alice_token = alice_sid @ ''.'' @ alice_secret"

definition alice_login :: "bool \<Rightarrow> (error + login_result) \<times> world" where
  "alice_login h = login sample_libs (sample_auth h) (Some ''alice'') (Some ''S3cret!'') alice_world"

definition bearer_request :: "string \<Rightarrow> request" where
  "bearer_request t = \<lparr>headers_authorization = Some (''Bearer '' @ t)\<rparr>"

text \<open>
  The store after the login of the scenario with token hashing enabled; the same store with
  every stored password hash and every stored token replaced (the new token is again a hash
  of the secret); and a users query that fails.
\<close>

definition alice_session_world :: world where
  "alice_session_world = snd (alice_login True)"

definition alice_rewritten :: world where
  "alice_rewritten =
     alice_session_world
       \<lparr>users := map (\<lambda>r. r\<lparr>u_password := ''other''\<rparr>) (users alice_session_world),
        sessions := map (\<lambda>r. r\<lparr>s_token := ''00$'' @ alice_secret\<rparr>) (sessions alice_session_world)\<rparr>"

definition store_down :: "string option \<Rightarrow> world \<Rightarrow> (error + user_row list) \<times> world" where
  "store_down v w = (Inl (StoreError ''connection lost''), w)"

section \<open>Auxiliary facts\<close>

subsection \<open>Splitting and hexadecimal strings\<close>

lemma split_not_Nil: "split s c \<noteq> []"
  by (induction s) (auto split: list.splits)

lemma split_no_sep: "c \<notin> set s \<Longrightarrow> split s c = [s]"
  by (induction s) auto

lemma split_append_sep: "c \<notin> set xs \<Longrightarrow> split (xs @ c # ys) c = xs # split ys c"
  by (induction xs) (auto simp: split_not_Nil split: list.splits)

lemma hex_digit_in: "n < 16 \<Longrightarrow> hex_digits ! n \<in> set hex_digits"
  by (rule nth_mem) (simp add: hex_digits_def)

lemma set_hex_byte: "set (hex_byte b) \<subseteq> set hex_digits"
proof -
  have "unat b < 256" using unsigned_less [of b, where ?'a = nat] by simp
  then have "unat b div 16 < 16" by simp
  moreover have "unat b mod 16 < 16" by simp
  ultimately show ?thesis
    unfolding hex_byte_def using hex_digit_in by simp
qed

lemma set_toString_hex: "set (toString_hex bs) \<subseteq> set hex_digits"
  unfolding toString_hex_def using set_hex_byte by auto

lemma length_toString_hex: "length (toString_hex bs) = 2 * length bs"
  unfolding toString_hex_def by (induction bs) (simp_all add: hex_byte_def)

lemma dot_not_hex: "CHR ''.'' \<notin> set (toString_hex bs)"
  using set_toString_hex [of bs] by (auto simp: hex_digits_def)

lemma dollar_not_hex: "CHR ''$'' \<notin> set (toString_hex bs)"
  using set_toString_hex [of bs] by (auto simp: hex_digits_def)

lemma split_segments: "seg \<in> set (split s c) \<Longrightarrow> c \<notin> set seg"
proof (induction s arbitrary: seg)
  case Nil
  then show ?case by simp
next
  case (Cons x xs)
  then show ?case
    by (cases "split xs c") (auto simp: split_not_Nil split: if_splits)
qed

lemma split_token: "split (toString_hex xs @ ''.'' @ toString_hex ys) CHR ''.'' = [toString_hex xs, toString_hex ys]"
  using split_append_sep [OF dot_not_hex, of xs "toString_hex ys"] split_no_sep [OF dot_not_hex, of ys]
  by simp

lemma split_two_segments:
  assumes "split s c = x # y # rest"
  shows "split (x @ c # y) c = [x, y]"
proof -
  have "c \<notin> set x" "c \<notin> set y"
    using split_segments [of x s c] split_segments [of y s c] assms by simp_all
  then show ?thesis by (simp add: split_append_sep split_no_sep)
qed

subsection \<open>First matching rows\<close>

lemma filter_hd_find: "(case filter P xs of [] \<Rightarrow> None | x # _ \<Rightarrow> Some x) = find P xs"
  by (induction xs) auto

lemma find_Some_filter: "find P xs = Some r \<Longrightarrow> \<exists>rest. filter P xs = r # rest"
  by (induction xs) (auto split: if_splits)

lemma find_None_filter: "find P xs = None \<Longrightarrow> filter P xs = []"
  by (induction xs) (auto split: if_splits)

lemma find_snoc: "find P (xs @ [y]) = (case find P xs of None \<Rightarrow> (if P y then Some y else None) | Some x \<Rightarrow> Some x)"
  by (induction xs) auto

subsection \<open>The two ways out of \<open>login\<close>\<close>

lemma login_accepts:
  assumes "knex a" "u \<noteq> []" "p \<noteq> []"
    and "find (\<lambda>r. u_username r = u) (users w) = Some r"
    and "bcrypt_compare L (Some p) (u_password r) = Inr True"
  shows "fst (login L a (Some u) (Some p) w) = Inr (Token (login_sid w @ ''.'' @ login_secret w))"
    and "sessions (snd (login L a (Some u) (Some p) w)) = sessions w @ [login_session L a w r]"
    and "users (snd (login L a (Some u) (Some p) w)) = users w"
proof -
  obtain rest where f: "filter (\<lambda>r. u_username r = u) (users w) = r # rest"
    using find_Some_filter [OF assms(4)] by blast
  show "fst (login L a (Some u) (Some p) w) = Inr (Token (login_sid w @ ''.'' @ login_secret w))"
    using assms(1,2,3,5) f
    by (simp add: login_def truthy_def users_where_username_def randomBytes_def issue_def
        sessions_insert_def login_sid_def login_secret_def Let_def split: prod.splits)
  show "sessions (snd (login L a (Some u) (Some p) w)) = sessions w @ [login_session L a w r]"
    using assms(1,2,3,5) f
    by (simp add: login_def truthy_def users_where_username_def randomBytes_def issue_def
        sessions_insert_def login_sid_def login_secret_def login_salt_def login_session_def Let_def split: prod.splits)
  show "users (snd (login L a (Some u) (Some p) w)) = users w"
    using assms(1,2,3,5) f
    by (simp add: login_def truthy_def users_where_username_def randomBytes_def issue_def
        sessions_insert_def Let_def split: prod.splits)
qed

lemma login_rejects:
  assumes "knex a" "u \<noteq> []" "p \<noteq> []"
    and "find (\<lambda>r. u_username r = u) (users w) = None
         \<or> (\<exists>r. find (\<lambda>r. u_username r = u) (users w) = Some r
                \<and> bcrypt_compare L (Some p) (u_password r) = Inr False)"
  shows "login L a (Some u) (Some p) w = (Inr Failed, issue (UsersWhereUsername u) w)"
  using assms(4)
proof
  assume "find (\<lambda>r. u_username r = u) (users w) = None"
  then have "filter (\<lambda>r. u_username r = u) (users w) = []" by (rule find_None_filter)
  then show ?thesis using assms(1,2,3)
    by (simp add: login_def truthy_def users_where_username_def)
next
  assume "\<exists>r. find (\<lambda>r. u_username r = u) (users w) = Some r
                \<and> bcrypt_compare L (Some p) (u_password r) = Inr False"
  then obtain r where r: "find (\<lambda>r. u_username r = u) (users w) = Some r"
    and c: "bcrypt_compare L (Some p) (u_password r) = Inr False" by blast
  obtain rest where "filter (\<lambda>r. u_username r = u) (users w) = r # rest"
    using find_Some_filter [OF r] by blast
  then show ?thesis using assms(1,2,3) c
    by (simp add: login_def truthy_def users_where_username_def)
qed

lemma verify_new_session:
  assumes "knex a" "bcrypt_sound L" "sid_fresh w"
    and "sessions w' = sessions w @ [login_session L a w r]"
  shows "fst (verifyToken L a (Some (login_sid w @ ''.'' @ login_secret w)) w') = Inr True"
proof -
  have sp: "split (login_sid w @ ''.'' @ login_secret w) CHR ''.'' = [login_sid w, login_secret w]"
    unfolding login_sid_def login_secret_def by (rule split_token)
  have fnd: "find (\<lambda>r. s_session_id r = login_sid w) (sessions w') = Some (login_session L a w r)"
    using assms(3,4) by (simp add: sid_fresh_def find_snoc login_session_def)
  show ?thesis
  proof (cases "tokenHashing a")
    case True
    then show ?thesis using assms(1,2) sp fnd
      by (simp add: verifyToken_def truthy_def sessions_where_first_def nth_opt_def
          login_session_def bcrypt_sound_def Let_def)
  next
    case False
    then show ?thesis using assms(1) sp fnd
      by (simp add: verifyToken_def truthy_def sessions_where_first_def nth_opt_def
          login_session_def Let_def)
  qed
qed

subsection \<open>The two ways out of \<open>register\<close>\<close>

lemma register_taken:
  assumes "knex a" "u \<noteq> []" "p \<noteq> []"
    and "find (\<lambda>r. u_username r = u) (users w) \<noteq> None"
  shows "register L a (Some u) (Some p) w
           = (Inr conflict, issue (UsersWhereUsername u) (w\<lparr>drawn := drawn w + 32\<rparr>))"
  using assms
  by (auto simp add: register_def userExists_def truthy_def randomBytes_def issue_def conflict_def Let_def)

lemma register_free:
  assumes "knex a" "u \<noteq> []" "p \<noteq> []"
    and "find (\<lambda>r. u_username r = u) (users w) = None"
  shows "fst (register L a (Some u) (Some p) w) = Inr ResSuccess"
    and "users (snd (register L a (Some u) (Some p) w)) = users w @ [register_row L w u p]"
    and "sessions (snd (register L a (Some u) (Some p) w)) = sessions w"
  using assms
  by (simp_all add: register_def userExists_def truthy_def randomBytes_def issue_def
      users_insert_def register_row_def register_uuid_def register_salt_def Let_def)

lemma register_result_cases:
  assumes "fst (register L a username pwdUnhashed w) = Inr res"
  shows "knex a \<and> truthy username \<and> truthy pwdUnhashed"
  using assms by (auto simp: register_def split: if_splits)

lemma login_result_cases:
  assumes "fst (login L a username password w) = Inr res"
  shows "knex a \<and> truthy username \<and> truthy password"
  using assms by (auto simp: login_def split: if_splits)

lemma truthy_Some: "truthy v \<Longrightarrow> \<exists>s. v = Some s \<and> s \<noteq> []"
  by (cases v) (auto simp: truthy_def)

lemma login_token_cases:
  assumes "fst (login L a username password w) = Inr (Token t)"
  shows "\<exists>u p r. username = Some u \<and> password = Some p \<and> u \<noteq> [] \<and> p \<noteq> [] \<and> knex a
           \<and> find (\<lambda>r. u_username r = u) (users w) = Some r
           \<and> bcrypt_compare L (Some p) (u_password r) = Inr True"
proof -
  from login_result_cases [OF assms] obtain u p where
    up: "username = Some u" "password = Some p" "u \<noteq> []" "p \<noteq> []" and k: "knex a"
    using truthy_Some by blast
  show ?thesis
  proof (cases "find (\<lambda>r. u_username r = u) (users w)")
    case None
    then show ?thesis using login_rejects [OF k up(3,4), of w L] assms up by simp
  next
    case (Some r)
    show ?thesis
    proof (cases "bcrypt_compare L (Some p) (u_password r)")
      case (Inl e)
      obtain rest where "filter (\<lambda>r. u_username r = u) (users w) = r # rest"
        using find_Some_filter [OF Some] by blast
      then show ?thesis using assms up k Inl
        by (simp add: login_def truthy_def users_where_username_def)
    next
      case (Inr b)
      show ?thesis
      proof (cases b)
        case True
        then show ?thesis using up k Some Inr by simp
      next
        case False
        then show ?thesis using login_rejects [OF k up(3,4), of w L] assms up Some Inr by simp
      qed
    qed
  qed
qed

subsection \<open>The scenario, evaluated\<close>

lemma sample_bcrypt_sound: "bcrypt_sound sample_libs"
proof -
  have "dropWhile (\<lambda>c. c \<noteq> CHR ''$'') (toString_hex s @ CHR ''$'' # d) = CHR ''$'' # d" for s d
    using dollar_not_hex [of s] by (simp add: dropWhile_append)
  then show ?thesis by (simp add: bcrypt_sound_def sample_libs_def)
qed

lemma sample_bcrypt_hides: "bcrypt_hides sample_libs"
proof -
  have "length (toString_hex s @ CHR ''$'' # d) \<noteq> length d" for s d by simp
  then have "toString_hex s @ CHR ''$'' # d \<noteq> d" for s d by metis
  then show ?thesis by (simp add: bcrypt_hides_def sample_libs_def)
qed

lemma alice_world_users:
  "users alice_world =
     [\<lparr>u_uuid = ''000102030405060708090a0b0c0d0e0f'', u_username = ''alice'',
       u_password = ''101112131415161718191a1b1c1d1e1f$S3cret!''\<rparr>]"
  by (simp add: alice_world_def register_def userExists_def truthy_def sample_auth_def
      sample_world_def sample_libs_def randomBytes_def issue_def users_insert_def Let_def
      upt_rec toString_hex_def hex_byte_def hex_digits_def)

lemma alice_world_rest:
  "sessions alice_world = []" "drawn alice_world = 32" "entropy alice_world = (\<lambda>i. of_nat i)"
  by (simp_all add: alice_world_def register_def userExists_def truthy_def sample_auth_def
      sample_world_def randomBytes_def issue_def users_insert_def Let_def)

lemma alice_login_sid: "login_sid alice_world = alice_sid"
  by (simp add: login_sid_def randomBytes_def alice_world_rest alice_sid_def
      upt_rec toString_hex_def hex_byte_def hex_digits_def)

lemma alice_login_secret: "login_secret alice_world = alice_secret"
  by (simp add: login_secret_def randomBytes_def alice_world_rest alice_secret_def
      upt_rec toString_hex_def hex_byte_def hex_digits_def)

lemma alice_present: "identity_present sample_libs alice_world ''alice'' ''S3cret!''"
  by (simp add: identity_present_def alice_world_users sample_libs_def)

lemma alice_fresh: "sid_fresh alice_world"
  by (simp add: sid_fresh_def alice_world_rest)

subsection \<open>Registration makes the identity present\<close>

lemma register_establishes_identity:
  assumes "knex a" and "bcrypt_sound L" and "u \<noteq> []" and "p \<noteq> []"
    and "find (\<lambda>r. u_username r = u) (users w) = None"
  shows "identity_present L (snd (register L a (Some u) (Some p) w)) u p"
  using register_free(2) [OF assms(1,3,4,5), of L] assms(2,5)
  by (simp add: identity_present_def find_snoc register_row_def bcrypt_sound_def)

subsection \<open>What \<open>verifyToken\<close> and the owner lookup do\<close>

lemma verify_lookup:
  assumes "knex a" and "s \<noteq> []"
  shows "snd (verifyToken L a (Some s) w) = issue (SessionsWhereSid (hd (split s CHR ''.''))) w"
  using assms
  by (simp add: verifyToken_def truthy_def sessions_where_first_def Let_def split: option.splits)

lemma verify_unknown_sid:
  assumes "knex a" and "s \<noteq> []"
    and "find (\<lambda>r. s_session_id r = hd (split s CHR ''.'')) (sessions w) = None"
  shows "fst (verifyToken L a (Some s) w) = Inr False"
  using assms by (simp add: verifyToken_def truthy_def sessions_where_first_def Let_def)

lemma verify_known_sid:
  assumes "knex a" and "s \<noteq> []"
    and "find (\<lambda>r. s_session_id r = hd (split s CHR ''.'')) (sessions w) = Some m"
  shows "fst (verifyToken L a (Some s) w)
           = (if tokenHashing a then bcrypt_compare L (nth_opt (split s CHR ''.'') 1) (s_token m)
              else Inr (nth_opt (split s CHR ''.'') 1 = Some (s_token m)))"
  using assms by (simp add: verifyToken_def truthy_def sessions_where_first_def Let_def)

lemma verify_true_cases:
  assumes "verifyToken L a (Some tok) w = (Inr True, w1)"
  shows "knex a \<and> tok \<noteq> []
       \<and> w1 = issue (SessionsWhereSid (hd (split tok CHR ''.''))) w
       \<and> (\<exists>m. find (\<lambda>r. s_session_id r = hd (split tok CHR ''.'')) (sessions w) = Some m)"
  using assms
  by (auto simp: verifyToken_def truthy_def sessions_where_first_def Let_def
      split: if_splits option.splits)

lemma owner_lookup:
  assumes "knex a" and "sid \<noteq> []"
    and "find (\<lambda>r. s_session_id r = sid) (sessions w) = Some m"
  shows "getUserIdFromSessionId a (Some sid) (issue q w)
           = (Inr (Some (s_uuid m)), issue (SessionsWhereSid sid) (issue q w))"
  using assms
  by (simp add: getUserIdFromSessionId_def truthy_def sessions_where_first_def issue_def)

lemma owner_lookup_empty:
  "getUserIdFromSessionId a (Some []) w
     = (Inl (if knex a then SessionIdRequired else KnexNotInitiated), w)"
  by (simp add: getUserIdFromSessionId_def truthy_def)

subsection \<open>The scenario after \<open>login\<close>\<close>

lemma sample_knex: "knex (sample_auth h)"
  by (simp add: sample_auth_def)

lemma alice_row:
  "find (\<lambda>r. u_username r = ''alice'') (users alice_world) = Some (hd (users alice_world))"
  by (simp add: alice_world_users)

lemma alice_password_ok:
  "bcrypt_compare sample_libs (Some ''S3cret!'') (u_password (hd (users alice_world))) = Inr True"
  by (simp add: alice_world_users sample_libs_def)

lemma alice_login_token: "fst (alice_login h) = Inr (Token alice_token)"
  using login_accepts(1) [OF sample_knex _ _ alice_row alice_password_ok, of h]
  by (simp add: alice_login_def alice_token_def alice_login_sid alice_login_secret)

lemma alice_login_sessions:
  "sessions (snd (alice_login h))
     = [\<lparr>s_session_id = alice_sid,
         s_token = (if h then bcrypt_hash sample_libs alice_secret 10 (login_salt alice_world)
                    else alice_secret),
         s_uuid = ''000102030405060708090a0b0c0d0e0f''\<rparr>]"
  using login_accepts(2) [OF sample_knex _ _ alice_row alice_password_ok, of h]
  by (simp add: alice_login_def alice_world_rest alice_world_users login_session_def
      sample_auth_def alice_login_sid alice_login_secret)

lemma alice_login_users: "users (snd (alice_login h)) = users alice_world"
  using login_accepts(3) [OF sample_knex _ _ alice_row alice_password_ok, of h]
  by (simp add: alice_login_def)

lemma alice_token_split: "split alice_token CHR ''.'' = [alice_sid, alice_secret]"
  by (simp add: alice_token_def alice_sid_def alice_secret_def)

lemma alice_salt_hex:
  "toString_hex (login_salt alice_world) = ''464748494a4b4c4d4e4f505152535455''"
  by (simp add: login_salt_def randomBytes_def alice_world_rest
      upt_rec toString_hex_def hex_byte_def hex_digits_def)

lemma alice_verify:
  "verifyToken sample_libs (sample_auth h) (Some alice_token) (snd (alice_login h))
     = (Inr True, issue (SessionsWhereSid alice_sid) (snd (alice_login h)))"
  by (simp add: verifyToken_def truthy_def sessions_where_first_def nth_opt_def Let_def
      alice_token_split alice_login_sessions sample_knex sample_libs_def alice_salt_hex)
    (simp add: alice_token_def sample_auth_def)

subsection \<open>The middleware\<close>

lemma middleware_is_body:
  "express_middleware L a req w
     = middleware_body (verifyToken L a) (getUserIdFromSessionId a) users_by_uuid req w"
  by (simp add: express_middleware_def middleware_body_def users_by_uuid_def Let_def
      split: prod.splits sum.splits bool.splits list.splits)

lemma body_grants:
  assumes "request_token req = Some tok" and "tok \<noteq> []"
    and "verify (Some tok) w = (Inr True, w1)"
    and "owner (Some (hd (split tok CHR ''.''))) w1 = (Inr uuid, w2)"
    and "lookup uuid w2 = (Inr (usr # rest), w3)"
  shows "middleware_body verify owner lookup req w
           = (Next \<lparr>eauth_user = \<lparr>eu_username = u_username usr, eu_id = uuid, eu_token = tok\<rparr>\<rparr>, w3)"
  using assms by (simp add: middleware_body_def request_token_def truthy_def)

lemma body_denies_or_grants:
  "fst (middleware_body verify owner lookup req w) = Respond 401 ''Unauthorized''
   \<or> (\<exists>tok w1 uuid w2 usr rest w3.
         request_token req = Some tok \<and> tok \<noteq> []
       \<and> verify (Some tok) w = (Inr True, w1)
       \<and> owner (Some (hd (split tok CHR ''.''))) w1 = (Inr uuid, w2)
       \<and> lookup uuid w2 = (Inr (usr # rest), w3)
       \<and> middleware_body verify owner lookup req w
           = (Next \<lparr>eauth_user = \<lparr>eu_username = u_username usr, eu_id = uuid, eu_token = tok\<rparr>\<rparr>, w3))"
proof (cases "request_token req")
  case None
  then show ?thesis by (simp add: middleware_body_def request_token_def truthy_def unauthorized_def)
next
  case (Some tok)
  show ?thesis
  proof (cases "tok = []")
    case True
    with Some show ?thesis
      by (simp add: middleware_body_def request_token_def truthy_def unauthorized_def)
  next
    case ne: False
    obtain r1 w1 where v: "verify (Some tok) w = (r1, w1)" by (cases "verify (Some tok) w")
    show ?thesis
    proof (cases "r1 = Inr True")
      case False
      then show ?thesis using Some ne v
        by (cases r1) (auto simp: middleware_body_def request_token_def truthy_def unauthorized_def)
    next
      case True
      obtain r2 w2 where g: "owner (Some (hd (split tok CHR ''.''))) w1 = (r2, w2)"
        by (cases "owner (Some (hd (split tok CHR ''.''))) w1")
      show ?thesis
      proof (cases r2)
        case (Inl e)
        then show ?thesis using Some ne v True g
          by (simp add: middleware_body_def request_token_def truthy_def unauthorized_def)
      next
        case (Inr uuid)
        obtain r3 w3 where u: "lookup uuid w2 = (r3, w3)" by (cases "lookup uuid w2")
        show ?thesis
        proof (cases r3)
          case (Inl e)
          then show ?thesis using Some ne v True g Inr u
            by (simp add: middleware_body_def request_token_def truthy_def unauthorized_def)
        next
          case rows: (Inr rows)
          show ?thesis
          proof (cases rows)
            case Nil
            then show ?thesis using Some ne v True g Inr u rows
              by (simp add: middleware_body_def request_token_def truthy_def unauthorized_def)
          next
            case (Cons usr rest)
            then show ?thesis using Some ne v True g Inr u rows
              by (simp add: middleware_body_def request_token_def truthy_def)
          qed
        qed
      qed
    qed
  qed
qed

lemma verify_true_pair:
  assumes "fst (verifyToken L a (Some tok) w) = Inr True"
  shows "knex a \<and> tok \<noteq> []
       \<and> verifyToken L a (Some tok) w
           = (Inr True, issue (SessionsWhereSid (hd (split tok CHR ''.''))) w)
       \<and> (\<exists>m. find (\<lambda>r. s_session_id r = hd (split tok CHR ''.'')) (sessions w) = Some m)"
proof -
  obtain w1 where "verifyToken L a (Some tok) w = (Inr True, w1)"
    using assms by (cases "verifyToken L a (Some tok) w") simp
  from verify_true_cases [OF this] this show ?thesis by simp
qed

lemma users_by_uuid_rows:
  "users_by_uuid (Some u) w
     = (Inr (filter (\<lambda>r. u_uuid r = u) (users w)), issue (UsersWhereUuid (Some u)) w)"
  by (simp add: users_by_uuid_def users_where_uuid_def)

lemma middleware_grants:
  assumes "request_token req = Some tok"
    and "fst (verifyToken L a (Some tok) w) = Inr True"
    and "hd (split tok CHR ''.'') \<noteq> []"
    and "find (\<lambda>r. s_session_id r = hd (split tok CHR ''.'')) (sessions w) = Some sess"
    and "find (\<lambda>r. u_uuid r = s_uuid sess) (users w) = Some usr"
  shows "fst (express_middleware L a req w)
           = Next \<lparr>eauth_user = \<lparr>eu_username = u_username usr,
                                 eu_id = Some (s_uuid sess), eu_token = tok\<rparr>\<rparr>"
proof -
  let ?sid = "hd (split tok CHR ''.'')"
  let ?w1 = "issue (SessionsWhereSid ?sid) w"
  let ?w2 = "issue (SessionsWhereSid ?sid) ?w1"
  from verify_true_pair [OF assms(2)] have k: "knex a" and ne: "tok \<noteq> []"
    and v: "verifyToken L a (Some tok) w = (Inr True, ?w1)" by simp_all
  have g: "getUserIdFromSessionId a (Some ?sid) ?w1 = (Inr (Some (s_uuid sess)), ?w2)"
    by (rule owner_lookup [OF k assms(3,4)])
  obtain rest where "filter (\<lambda>r. u_uuid r = s_uuid sess) (users w) = usr # rest"
    using find_Some_filter [OF assms(5)] by blast
  then have u: "users_by_uuid (Some (s_uuid sess)) ?w2
                  = (Inr (usr # rest), issue (UsersWhereUuid (Some (s_uuid sess))) ?w2)"
    by (simp add: users_by_uuid_rows issue_def)
  show ?thesis
    unfolding middleware_is_body
    using body_grants [where verify = "verifyToken L a" and owner = "getUserIdFromSessionId a"
        and lookup = users_by_uuid, OF assms(1) ne v g u]
    by simp
qed

lemma middleware_denies_or_grants:
  "fst (express_middleware L a req w) = Respond 401 ''Unauthorized''
   \<or> (\<exists>tok sess usr.
         request_token req = Some tok
       \<and> fst (verifyToken L a (Some tok) w) = Inr True
       \<and> hd (split tok CHR ''.'') \<noteq> []
       \<and> find (\<lambda>r. s_session_id r = hd (split tok CHR ''.'')) (sessions w) = Some sess
       \<and> find (\<lambda>r. u_uuid r = s_uuid sess) (users w) = Some usr
       \<and> fst (express_middleware L a req w)
           = Next \<lparr>eauth_user = \<lparr>eu_username = u_username usr,
                                 eu_id = Some (s_uuid sess), eu_token = tok\<rparr>\<rparr>)"
proof (cases "fst (express_middleware L a req w) = Respond 401 ''Unauthorized''")
  case True
  then show ?thesis by simp
next
  case False
  with body_denies_or_grants [of "verifyToken L a" "getUserIdFromSessionId a" users_by_uuid req w]
  obtain tok w1 uuid w2 usr rest w3 where
    t: "request_token req = Some tok" and
    v: "verifyToken L a (Some tok) w = (Inr True, w1)" and
    g: "getUserIdFromSessionId a (Some (hd (split tok CHR ''.''))) w1 = (Inr uuid, w2)" and
    u: "users_by_uuid uuid w2 = (Inr (usr # rest), w3)" and
    r: "express_middleware L a req w
          = (Next \<lparr>eauth_user = \<lparr>eu_username = u_username usr, eu_id = uuid, eu_token = tok\<rparr>\<rparr>, w3)"
    unfolding middleware_is_body by blast
  from verify_true_cases [OF v] obtain sess where k: "knex a"
    and w1: "w1 = issue (SessionsWhereSid (hd (split tok CHR ''.''))) w"
    and f: "find (\<lambda>r. s_session_id r = hd (split tok CHR ''.'')) (sessions w) = Some sess"
    by blast
  have sne: "hd (split tok CHR ''.'') \<noteq> []"
    using g owner_lookup_empty [of a w1] by auto
  from owner_lookup [OF k sne f, of "SessionsWhereSid (hd (split tok CHR ''.''))"] g w1
  have uu: "uuid = Some (s_uuid sess)" by simp
  have "filter (\<lambda>r. u_uuid r = s_uuid sess) (users w2) = usr # rest"
    using u uu by (simp add: users_by_uuid_rows)
  moreover have "users w2 = users w"
    using owner_lookup [OF k sne f, of "SessionsWhereSid (hd (split tok CHR ''.''))"] g w1
    by (auto simp: issue_def)
  ultimately have fu: "find (\<lambda>r. u_uuid r = s_uuid sess) (users w) = Some usr"
    using filter_hd_find [of "\<lambda>r. u_uuid r = s_uuid sess" "users w"] by simp
  show ?thesis using t v sne f fu r uu by simp
qed

lemma find_public_session:
  "map public_session xs = map public_session ys \<Longrightarrow>
   map_option s_uuid (find (\<lambda>r. s_session_id r = sid) xs)
     = map_option s_uuid (find (\<lambda>r. s_session_id r = sid) ys)"
proof (induction xs arbitrary: ys)
  case Nil
  then show ?case by simp
next
  case (Cons x xs)
  then obtain y ys' where "ys = y # ys'" by (cases ys) auto
  with Cons show ?case by (auto simp: public_session_def)
qed

lemma find_public_user:
  "map public_user xs = map public_user ys \<Longrightarrow>
   map_option u_username (find (\<lambda>r. u_uuid r = u) xs)
     = map_option u_username (find (\<lambda>r. u_uuid r = u) ys)"
proof (induction xs arbitrary: ys)
  case Nil
  then show ?case by simp
next
  case (Cons x xs)
  then obtain y ys' where "ys = y # ys'" by (cases ys) auto
  with Cons show ?case by (auto simp: public_user_def)
qed

lemma middleware_outcome_eq:
  "fst (express_middleware L a req w) =
     (case request_token req of
        None \<Rightarrow> unauthorized
      | Some tok \<Rightarrow>
          if fst (verifyToken L a (Some tok) w) = Inr True \<and> hd (split tok CHR ''.'') \<noteq> []
          then (case map_option s_uuid
                       (find (\<lambda>r. s_session_id r = hd (split tok CHR ''.'')) (sessions w)) of
                  None \<Rightarrow> unauthorized
                | Some uuid \<Rightarrow>
                    (case map_option u_username (find (\<lambda>r. u_uuid r = uuid) (users w)) of
                       None \<Rightarrow> unauthorized
                     | Some name \<Rightarrow>
                         Next \<lparr>eauth_user = \<lparr>eu_username = name, eu_id = Some uuid,
                                               eu_token = tok\<rparr>\<rparr>))
          else unauthorized)"
proof (cases "request_token req")
  case None
  then show ?thesis using middleware_denies_or_grants [of L a req w]
    by (auto simp: unauthorized_def)
next
  case (Some tok)
  show ?thesis
  proof (cases "fst (verifyToken L a (Some tok) w) = Inr True \<and> hd (split tok CHR ''.'') \<noteq> []")
    case False
    then show ?thesis using Some middleware_denies_or_grants [of L a req w]
      by (auto simp: unauthorized_def)
  next
    case True
    then obtain sess where
      f: "find (\<lambda>r. s_session_id r = hd (split tok CHR ''.'')) (sessions w) = Some sess"
      using verify_true_pair [of L a tok w] by blast
    show ?thesis
    proof (cases "find (\<lambda>r. u_uuid r = s_uuid sess) (users w)")
      case None
      then show ?thesis using Some True f middleware_denies_or_grants [of L a req w]
        by (auto simp: unauthorized_def)
    next
      case u: (Some usr)
      from middleware_grants [OF Some _ _ f u, of L a] True
      show ?thesis using Some f u by simp
    qed
  qed
qed

lemma middleware_public_only:
  assumes "map public_session (sessions w') = map public_session (sessions w)"
    and "map public_user (users w') = map public_user (users w)"
    and "fst (verifyToken L a (request_token req) w') = fst (verifyToken L a (request_token req) w)"
  shows "fst (express_middleware L a req w') = fst (express_middleware L a req w)"
proof (cases "request_token req")
  case None
  then show ?thesis by (simp add: middleware_outcome_eq)
next
  case (Some tok)
  then have v: "fst (verifyToken L a (Some tok) w') = fst (verifyToken L a (Some tok) w)"
    using assms(3) by simp
  show ?thesis
    by (simp only: middleware_outcome_eq Some option.case v
        find_public_session [OF assms(1)] find_public_user [OF assms(2)])
qed

lemma verify_ignores_users:
  "fst (verifyToken L a t (w\<lparr>users := us\<rparr>)) = fst (verifyToken L a t w)"
  by (simp add: verifyToken_def sessions_where_first_def issue_def Let_def split: option.splits)

lemma middleware_ignores_password:
  "fst (express_middleware L a req (w\<lparr>users := map (\<lambda>r. r\<lparr>u_password := g r\<rparr>) (users w)\<rparr>))
     = fst (express_middleware L a req w)"
  by (rule middleware_public_only) (simp_all add: verify_ignores_users public_user_def comp_def)

lemma bearer_request_token:
  "CHR '' '' \<notin> set t \<Longrightarrow> request_token (bearer_request t) = Some t"
  by (simp add: request_token_def bearer_request_def split_no_sep nth_opt_def)

lemma alice_session_rows:
  "sessions alice_session_world
     = [\<lparr>s_session_id = alice_sid,
         s_token = ''464748494a4b4c4d4e4f505152535455$'' @ alice_secret,
         s_uuid = ''000102030405060708090a0b0c0d0e0f''\<rparr>]"
  "users alice_session_world = users alice_world"
  by (simp_all add: alice_session_world_def alice_login_sessions alice_login_users
      sample_libs_def alice_salt_hex)

lemma alice_bad_verify:
  "fst (verifyToken sample_libs (sample_auth True) (Some (alice_sid @ ''.bad'')) alice_session_world)
     = Inr False"
  by (simp add: verifyToken_def truthy_def sessions_where_first_def nth_opt_def Let_def
      alice_session_rows sample_knex sample_libs_def)
    (simp add: alice_sid_def alice_secret_def sample_auth_def)

lemma alice_rewritten_verify:
  "fst (verifyToken sample_libs (sample_auth True) (Some alice_token) alice_rewritten) = Inr True"
  by (simp add: verifyToken_def truthy_def sessions_where_first_def nth_opt_def Let_def
      alice_token_split alice_rewritten_def alice_session_rows sample_knex sample_libs_def)
    (simp add: alice_token_def sample_auth_def)

section \<open>The claims\<close>

text \<open>
  Claim C1. Let an identity \<open>(u, p)\<close> be present in the store. Then \<open>login\<close> returns a
  composite token, and \<open>verifyToken\<close>, called on that token in the world \<open>login\<close> leaves,
  returns true. The object \<open>a\<close> is arbitrary, so this holds with token hashing enabled and
  disabled. Two facts that the code takes from outside are hypotheses: \<^verbatim>\<open>bcrypt.compare\<close>
  accepts what \<^verbatim>\<open>bcrypt.hash\<close> produced, and the session id drawn from the generator is not
  already the id of a stored session (otherwise \<^verbatim>\<open>.first()\<close> finds the older row).
  By \<open>register_establishes_identity\<close> a successful \<open>register\<close> makes the identity present.
\<close>

theorem login_then_verify:
  assumes "knex a" and "bcrypt_sound L" and "u \<noteq> []" and "p \<noteq> []"
    and "identity_present L w u p" and "sid_fresh w"
  shows "\<exists>t. fst (login L a (Some u) (Some p) w) = Inr (Token t)
           \<and> fst (verifyToken L a (Some t) (snd (login L a (Some u) (Some p) w))) = Inr True"
proof -
  from assms(5) obtain r where r: "find (\<lambda>r. u_username r = u) (users w) = Some r"
    and c: "bcrypt_compare L (Some p) (u_password r) = Inr True"
    by (auto simp: identity_present_def split: option.splits)
  note acc = login_accepts [OF assms(1,3,4) r c]
  have "fst (verifyToken L a (Some (login_sid w @ ''.'' @ login_secret w))
               (snd (login L a (Some u) (Some p) w))) = Inr True"
    using assms(1,2,6) acc(2) by (rule verify_new_session)
  with acc(1) show ?thesis by blast
qed

theorem login_then_verify_witness:
  "knex (sample_auth True) \<and> knex (sample_auth False) \<and> bcrypt_sound sample_libs
   \<and> ''alice'' \<noteq> [] \<and> ''S3cret!'' \<noteq> []
   \<and> identity_present sample_libs alice_world ''alice'' ''S3cret!'' \<and> sid_fresh alice_world
   \<and> fst (alice_login True) = Inr (Token alice_token)
   \<and> fst (verifyToken sample_libs (sample_auth True) (Some alice_token) (snd (alice_login True)))
       = Inr True
   \<and> fst (alice_login False) = Inr (Token alice_token)
   \<and> fst (verifyToken sample_libs (sample_auth False) (Some alice_token) (snd (alice_login False)))
       = Inr True"
proof -
  have ne: "''alice'' \<noteq> []" "''S3cret!'' \<noteq> []" by simp_all
  show ?thesis
    using login_then_verify [OF sample_knex [of True] sample_bcrypt_sound ne alice_present alice_fresh]
      login_then_verify [OF sample_knex [of False] sample_bcrypt_sound ne alice_present alice_fresh]
      sample_knex sample_bcrypt_sound alice_present alice_fresh alice_login_token
    by (simp add: alice_login_def)
qed

text \<open>
  Claim C2, as amended. \<open>verifyToken\<close> never counts segments: it looks up, once, the session
  whose id is the text before the first dot, and compares the second segment with the stored
  token. So, for a non-empty string \<open>s\<close> and an object with a knex handle:
  the only statement issued is that lookup; the result is false whenever no session has the
  first segment as id; for \<open>s\<close> without a dot the result is false when token hashing is
  disabled, and with hashing enabled and a session whose id is \<open>s\<close> it is whatever
  \<^verbatim>\<open>bcrypt.compare\<close> makes of an undefined token; for \<open>s\<close> with more than one dot everything
  after the second segment is ignored, and the call behaves as on the first two segments.
\<close>

theorem verify_malformed:
  assumes "knex a" and "s \<noteq> []"
  shows "snd (verifyToken L a (Some s) w) = issue (SessionsWhereSid (hd (split s CHR ''.''))) w
       \<and> (find (\<lambda>r. s_session_id r = hd (split s CHR ''.'')) (sessions w) = None \<longrightarrow>
            fst (verifyToken L a (Some s) w) = Inr False)
       \<and> (CHR ''.'' \<notin> set s \<and> \<not> tokenHashing a \<longrightarrow> fst (verifyToken L a (Some s) w) = Inr False)
       \<and> (\<forall>m. CHR ''.'' \<notin> set s \<and> tokenHashing a
               \<and> find (\<lambda>r. s_session_id r = s) (sessions w) = Some m \<longrightarrow>
            fst (verifyToken L a (Some s) w) = bcrypt_compare L None (s_token m))
       \<and> (\<forall>x y rest. split s CHR ''.'' = x # y # rest \<longrightarrow>
            verifyToken L a (Some s) w = verifyToken L a (Some (x @ ''.'' @ y)) w)"
proof (intro conjI impI allI)
  show "snd (verifyToken L a (Some s) w) = issue (SessionsWhereSid (hd (split s CHR ''.''))) w"
    by (rule verify_lookup [OF assms])
next
  assume "find (\<lambda>r. s_session_id r = hd (split s CHR ''.'')) (sessions w) = None"
  then show "fst (verifyToken L a (Some s) w) = Inr False"
    by (rule verify_unknown_sid [OF assms])
next
  assume h: "CHR ''.'' \<notin> set s \<and> \<not> tokenHashing a"
  then have sp: "split s CHR ''.'' = [s]" by (simp add: split_no_sep)
  show "fst (verifyToken L a (Some s) w) = Inr False"
  proof (cases "find (\<lambda>r. s_session_id r = hd (split s CHR ''.'')) (sessions w)")
    case None
    then show ?thesis by (rule verify_unknown_sid [OF assms])
  next
    case (Some m)
    show ?thesis using verify_known_sid [OF assms Some, of L] h sp by (simp add: nth_opt_def)
  qed
next
  fix m
  assume h: "CHR ''.'' \<notin> set s \<and> tokenHashing a
               \<and> find (\<lambda>r. s_session_id r = s) (sessions w) = Some m"
  then have sp: "split s CHR ''.'' = [s]" by (simp add: split_no_sep)
  with h have "find (\<lambda>r. s_session_id r = hd (split s CHR ''.'')) (sessions w) = Some m" by simp
  from verify_known_sid [OF assms this, of L] h sp
  show "fst (verifyToken L a (Some s) w) = bcrypt_compare L None (s_token m)"
    by (simp add: nth_opt_def)
next
  fix x y rest
  assume sp: "split s CHR ''.'' = x # y # rest"
  have sp2: "split (x @ ''.'' @ y) CHR ''.'' = [x, y]"
    using split_two_segments [OF sp] by simp
  show "verifyToken L a (Some s) w = verifyToken L a (Some (x @ ''.'' @ y)) w"
    using assms sp sp2
    by (simp add: verifyToken_def truthy_def sessions_where_first_def nth_opt_def Let_def
        split: option.splits)
qed

theorem verify_malformed_witness:
  "knex (sample_auth False) \<and> knex (sample_auth True)
   \<and> ''nosession'' \<noteq> [] \<and> CHR ''.'' \<notin> set ''nosession'' \<and> \<not> tokenHashing (sample_auth False)
   \<and> find (\<lambda>r. s_session_id r = hd (split ''nosession'' CHR ''.'')) (sessions (snd (alice_login False)))
       = None
   \<and> fst (verifyToken sample_libs (sample_auth False) (Some ''nosession'') (snd (alice_login False)))
       = Inr False
   \<and> alice_sid \<noteq> [] \<and> CHR ''.'' \<notin> set alice_sid \<and> tokenHashing (sample_auth True)
   \<and> find (\<lambda>r. s_session_id r = alice_sid) (sessions (snd (alice_login True)))
       = Some (hd (sessions (snd (alice_login True))))
   \<and> fst (verifyToken sample_libs (sample_auth True) (Some alice_sid) (snd (alice_login True)))
       = Inl (LibraryError ''data and hash arguments required'')
   \<and> alice_token @ ''.extra'' \<noteq> []
   \<and> split (alice_token @ ''.extra'') CHR ''.'' = [alice_sid, alice_secret, ''extra'']
   \<and> verifyToken sample_libs (sample_auth False) (Some (alice_token @ ''.extra'')) (snd (alice_login False))
       = verifyToken sample_libs (sample_auth False) (Some (alice_sid @ ''.'' @ alice_secret))
           (snd (alice_login False))"
proof -
  have n1: "''nosession'' \<noteq> []" and n2: "alice_sid \<noteq> []" and n3: "alice_token @ ''.extra'' \<noteq> []"
    by (simp_all add: alice_sid_def)
  have d1: "CHR ''.'' \<notin> set ''nosession''" and d2: "CHR ''.'' \<notin> set alice_sid"
    by (simp_all add: alice_sid_def)
  have f1: "find (\<lambda>r. s_session_id r = hd (split ''nosession'' CHR ''.'')) (sessions (snd (alice_login False)))
       = None"
    by (simp add: alice_login_sessions alice_sid_def)
  have f2: "find (\<lambda>r. s_session_id r = alice_sid) (sessions (snd (alice_login True)))
       = Some (hd (sessions (snd (alice_login True))))"
    by (simp add: alice_login_sessions)
  have sp: "split (alice_token @ ''.extra'') CHR ''.'' = [alice_sid, alice_secret, ''extra'']"
    by (simp add: alice_token_def alice_sid_def alice_secret_def)
  have h: "\<not> tokenHashing (sample_auth False)" "tokenHashing (sample_auth True)"
    by (simp_all add: sample_auth_def)
  show ?thesis
    using verify_malformed [where L = sample_libs and w = "snd (alice_login False)",
          OF sample_knex [of False] n1]
      verify_malformed [where L = sample_libs and w = "snd (alice_login True)",
          OF sample_knex [of True] n2]
      verify_malformed [where L = sample_libs and w = "snd (alice_login False)",
          OF sample_knex [of False] n3]
      sample_knex n1 n2 n3 d1 d2 f1 f2 sp h
    by (simp add: sample_libs_def)
qed

text \<open>
  Claim C2 as stated fails: with token hashing disabled and the session of the scenario
  stored, the composite token followed by \<open>.extra\<close> has three segments and is accepted.
\<close>

theorem verify_malformed_counterexample:
  "sessions (snd (alice_login False))
     = [\<lparr>s_session_id = ''2021222324252627'',
         s_token = ''28292a2b2c2d2e2f303132333435363738393a3b3c3d3e3f404142434445'',
         s_uuid = ''000102030405060708090a0b0c0d0e0f''\<rparr>]
   \<and> fst (verifyToken sample_libs (sample_auth False)
            (Some ''2021222324252627.28292a2b2c2d2e2f303132333435363738393a3b3c3d3e3f404142434445.extra'')
            (snd (alice_login False))) = Inr True"
proof -
  have s: "sessions (snd (alice_login False))
     = [\<lparr>s_session_id = ''2021222324252627'',
         s_token = ''28292a2b2c2d2e2f303132333435363738393a3b3c3d3e3f404142434445'',
         s_uuid = ''000102030405060708090a0b0c0d0e0f''\<rparr>]"
    by (simp add: alice_login_sessions alice_sid_def alice_secret_def)
  show ?thesis
    by (simp add: s verifyToken_def truthy_def sessions_where_first_def nth_opt_def
        sample_auth_def Let_def)
qed

text \<open>
  Claim C3, as amended. The token of every successful \<open>login\<close> is \<open>sid.secret\<close>, where
  \<open>sid\<close> is the hexadecimal form of the next 8 bytes of the generator, 16 characters, and
  \<open>secret\<close> that of the 30 bytes after them, 60 characters; both consist of the digits
  \<open>0-9a-f\<close>, so the token splits at its only dot into exactly these two segments.
\<close>

theorem login_token_shape:
  assumes "fst (login L a username password w) = Inr (Token t)"
  shows "t = login_sid w @ ''.'' @ login_secret w
       \<and> split t CHR ''.'' = [login_sid w, login_secret w]
       \<and> login_sid w = toString_hex (map (entropy w) [drawn w ..< drawn w + 8])
       \<and> login_secret w = toString_hex (map (entropy w) [drawn w + 8 ..< drawn w + 38])
       \<and> length (login_sid w) = 16 \<and> length (login_secret w) = 60
       \<and> set (login_sid w) \<subseteq> set hex_digits \<and> set (login_secret w) \<subseteq> set hex_digits"
proof -
  from login_token_cases [OF assms] obtain u p r where
    *: "username = Some u" "password = Some p" "u \<noteq> []" "p \<noteq> []" "knex a"
       "find (\<lambda>r. u_username r = u) (users w) = Some r"
       "bcrypt_compare L (Some p) (u_password r) = Inr True" by blast
  have t: "t = login_sid w @ ''.'' @ login_secret w"
    using login_accepts(1) [OF *(5,3,4,6,7)] assms *(1,2) by simp
  have sp: "split (login_sid w @ ''.'' @ login_secret w) CHR ''.'' = [login_sid w, login_secret w]"
    unfolding login_sid_def login_secret_def by (rule split_token)
  have "login_secret w = toString_hex (map (entropy w) [drawn w + 8 ..< drawn w + 38])"
    by (simp add: login_secret_def randomBytes_def add.assoc)
  moreover have "login_sid w = toString_hex (map (entropy w) [drawn w ..< drawn w + 8])"
    by (simp add: login_sid_def randomBytes_def)
  moreover have "length (login_sid w) = 16" "length (login_secret w) = 60"
    by (simp_all add: login_sid_def login_secret_def length_toString_hex randomBytes_def)
  moreover have "set (login_sid w) \<subseteq> set hex_digits" "set (login_secret w) \<subseteq> set hex_digits"
    by (simp_all add: login_sid_def login_secret_def set_toString_hex)
  ultimately show ?thesis using t sp by simp
qed

theorem login_token_shape_witness:
  "fst (login sample_libs (sample_auth False) (Some ''alice'') (Some ''S3cret!'') alice_world)
     = Inr (Token alice_token)
   \<and> split alice_token CHR ''.'' = [alice_sid, alice_secret]
   \<and> length alice_sid = 16 \<and> length alice_secret = 60
   \<and> set alice_sid \<subseteq> set hex_digits \<and> set alice_secret \<subseteq> set hex_digits"
proof -
  have t: "fst (login sample_libs (sample_auth False) (Some ''alice'') (Some ''S3cret!'') alice_world)
             = Inr (Token alice_token)"
    using alice_login_token [of False] by (simp add: alice_login_def)
  show ?thesis
    using login_token_shape [OF t] t
    by (simp add: alice_token_def alice_login_sid alice_login_secret)
qed

text \<open>
  Claim C3 as stated fails: in the scenario the session id has 16 characters, not 8, and the
  secret 60, not 64.
\<close>

theorem login_token_shape_counterexample:
  "fst (login sample_libs (sample_auth True) (Some ''alice'') (Some ''S3cret!'') alice_world)
     = Inr (Token (''2021222324252627'' @ ''.''
                   @ ''28292a2b2c2d2e2f303132333435363738393a3b3c3d3e3f404142434445''))
   \<and> length ''2021222324252627'' \<noteq> 8
   \<and> length ''28292a2b2c2d2e2f303132333435363738393a3b3c3d3e3f404142434445'' \<noteq> 64"
  using alice_login_token [of True]
  by (simp add: alice_login_def alice_token_def alice_sid_def alice_secret_def)

text \<open>
  Claim C4. When a row with the username exists, \<open>register\<close> returns the conflict object and
  inserts nothing: both tables are as before, the only statement issued is the existence
  lookup, and a username that had exactly one row still has exactly one.
\<close>

theorem register_duplicate_conflict:
  assumes "knex a" and "u \<noteq> []" and "p \<noteq> []"
    and "find (\<lambda>r. u_username r = u) (users w) \<noteq> None"
  shows "fst (register L a (Some u) (Some p) w)
           = Inr (ResError ''An account with this username already exists'')
       \<and> users (snd (register L a (Some u) (Some p) w)) = users w
       \<and> sessions (snd (register L a (Some u) (Some p) w)) = sessions w
       \<and> queries (snd (register L a (Some u) (Some p) w)) = queries w @ [UsersWhereUsername u]
       \<and> (length (filter (\<lambda>r. u_username r = u) (users w)) = 1 \<longrightarrow>
            length (filter (\<lambda>r. u_username r = u) (users (snd (register L a (Some u) (Some p) w)))) = 1)"
  using register_taken [OF assms] by (simp add: issue_def conflict_def)

theorem register_duplicate_conflict_witness:
  "knex (sample_auth True) \<and> ''alice'' \<noteq> [] \<and> ''0ther'' \<noteq> []
   \<and> fst (register sample_libs (sample_auth True) (Some ''alice'') (Some ''S3cret!'') sample_world)
       = Inr ResSuccess
   \<and> find (\<lambda>r. u_username r = ''alice'') (users alice_world) \<noteq> None
   \<and> length (filter (\<lambda>r. u_username r = ''alice'') (users alice_world)) = 1
   \<and> fst (register sample_libs (sample_auth True) (Some ''alice'') (Some ''0ther'') alice_world)
       = Inr (ResError ''An account with this username already exists'')
   \<and> users (snd (register sample_libs (sample_auth True) (Some ''alice'') (Some ''0ther'') alice_world))
       = users alice_world
   \<and> length (filter (\<lambda>r. u_username r = ''alice'')
        (users (snd (register sample_libs (sample_auth True) (Some ''alice'') (Some ''0ther'') alice_world))))
       = 1"
proof -
  note k = sample_knex [of True]
  have ne: "''alice'' \<noteq> []" "''0ther'' \<noteq> []" "''S3cret!'' \<noteq> []" by simp_all
  have f: "find (\<lambda>r. u_username r = ''alice'') (users alice_world) \<noteq> None"
    by (simp add: alice_world_users)
  have n: "length (filter (\<lambda>r. u_username r = ''alice'') (users alice_world)) = 1"
    by (simp add: alice_world_users)
  have e: "find (\<lambda>r. u_username r = ''alice'') (users sample_world) = None"
    by (simp add: sample_world_def)
  have s: "fst (register sample_libs (sample_auth True) (Some ''alice'') (Some ''S3cret!'') sample_world)
             = Inr ResSuccess"
    by (rule register_free(1) [OF k ne(1,3) e])
  show ?thesis
    using register_duplicate_conflict [OF k ne(1,2) f, of sample_libs] k f n s by simp
qed

text \<open>
  Claim C5. In any store, \<open>login\<close> for a username without a row and \<open>login\<close> for an
  existing username whose stored hash \<^verbatim>\<open>bcrypt.compare\<close> rejects return the same value,
  \<^verbatim>\<open>false\<close>.
\<close>

theorem login_failures_indistinguishable:
  assumes "knex a" and "u1 \<noteq> []" and "p1 \<noteq> []" and "u2 \<noteq> []" and "p2 \<noteq> []"
    and "find (\<lambda>r. u_username r = u1) (users w) = None"
    and "find (\<lambda>r. u_username r = u2) (users w) = Some r"
    and "bcrypt_compare L (Some p2) (u_password r) = Inr False"
  shows "fst (login L a (Some u1) (Some p1) w) = fst (login L a (Some u2) (Some p2) w)
       \<and> fst (login L a (Some u2) (Some p2) w) = Inr Failed"
proof -
  have "login L a (Some u1) (Some p1) w = (Inr Failed, issue (UsersWhereUsername u1) w)"
    using assms(1,2,3,6) by (intro login_rejects) simp_all
  moreover have "login L a (Some u2) (Some p2) w = (Inr Failed, issue (UsersWhereUsername u2) w)"
    using assms(1,4,5,7,8) by (intro login_rejects) simp_all
  ultimately show ?thesis by simp
qed

theorem login_failures_indistinguishable_witness:
  "knex (sample_auth True) \<and> ''nobody'' \<noteq> [] \<and> ''x'' \<noteq> [] \<and> ''alice'' \<noteq> [] \<and> ''wrong'' \<noteq> []
   \<and> find (\<lambda>r. u_username r = ''nobody'') (users alice_world) = None
   \<and> find (\<lambda>r. u_username r = ''alice'') (users alice_world) = Some (hd (users alice_world))
   \<and> bcrypt_compare sample_libs (Some ''wrong'') (u_password (hd (users alice_world))) = Inr False
   \<and> fst (login sample_libs (sample_auth True) (Some ''nobody'') (Some ''x'') alice_world)
       = fst (login sample_libs (sample_auth True) (Some ''alice'') (Some ''wrong'') alice_world)
   \<and> fst (login sample_libs (sample_auth True) (Some ''alice'') (Some ''wrong'') alice_world) = Inr Failed"
proof -
  note k = sample_knex [of True]
  have ne: "''nobody'' \<noteq> []" "''x'' \<noteq> []" "''alice'' \<noteq> []" "''wrong'' \<noteq> []" by simp_all
  have n: "find (\<lambda>r. u_username r = ''nobody'') (users alice_world) = None"
    by (simp add: alice_world_users)
  have r: "find (\<lambda>r. u_username r = ''alice'') (users alice_world) = Some (hd (users alice_world))"
    by (simp add: alice_world_users)
  have c: "bcrypt_compare sample_libs (Some ''wrong'') (u_password (hd (users alice_world))) = Inr False"
    by (simp add: alice_world_users sample_libs_def)
  show ?thesis
    using login_failures_indistinguishable [OF k ne n r c] k n r c by simp
qed



text \<open>
  Claim C7. The row a successful \<open>register\<close> inserts holds \<^verbatim>\<open>bcrypt.hash(pwdUnhashed, 12)\<close>,
  and with token hashing enabled the row a successful \<open>login\<close> inserts holds
  \<^verbatim>\<open>bcrypt.hash(token, 10)\<close>; neither is the plaintext, bcrypt never returning its input.
\<close>

theorem stored_values_hashed:
  assumes "bcrypt_hides L"
  shows "(fst (register L a (Some u) (Some p) w) = Inr ResSuccess \<longrightarrow>
            users (snd (register L a (Some u) (Some p) w))
              = users w @ [\<lparr>u_uuid = register_uuid L w, u_username = u,
                             u_password = bcrypt_hash L p 12 (register_salt w)\<rparr>]
          \<and> bcrypt_hash L p 12 (register_salt w) \<noteq> p)
       \<and> (tokenHashing a \<and> fst (login L a username password w) = Inr (Token t) \<longrightarrow>
            t = login_sid w @ ''.'' @ login_secret w
          \<and> (\<exists>owner. sessions (snd (login L a username password w))
                = sessions w @ [\<lparr>s_session_id = login_sid w,
                                  s_token = bcrypt_hash L (login_secret w) 10 (login_salt w),
                                  s_uuid = owner\<rparr>])
          \<and> bcrypt_hash L (login_secret w) 10 (login_salt w) \<noteq> login_secret w)"
proof (intro conjI impI)
  assume s: "fst (register L a (Some u) (Some p) w) = Inr ResSuccess"
  from register_result_cases [OF s] have k: "knex a" and ne: "u \<noteq> []" "p \<noteq> []"
    by (simp_all add: truthy_def)
  have "find (\<lambda>r. u_username r = u) (users w) = None"
  proof (rule ccontr)
    assume "find (\<lambda>r. u_username r = u) (users w) \<noteq> None"
    from register_taken [OF k ne this, of L] s show False by (simp add: conflict_def)
  qed
  from register_free(2) [OF k ne this, of L]
  show "users (snd (register L a (Some u) (Some p) w))
          = users w @ [\<lparr>u_uuid = register_uuid L w, u_username = u,
                         u_password = bcrypt_hash L p 12 (register_salt w)\<rparr>]"
    by (simp add: register_row_def)
next
  show "bcrypt_hash L p 12 (register_salt w) \<noteq> p"
    using assms by (simp add: bcrypt_hides_def)
next
  assume h: "tokenHashing a \<and> fst (login L a username password w) = Inr (Token t)"
  then have tk: "fst (login L a username password w) = Inr (Token t)" by simp
  from login_token_cases [OF tk] obtain u' p' r where
    *: "username = Some u'" "password = Some p'" "u' \<noteq> []" "p' \<noteq> []" "knex a"
       "find (\<lambda>r. u_username r = u') (users w) = Some r"
       "bcrypt_compare L (Some p') (u_password r) = Inr True" by blast
  note acc = login_accepts [OF *(5,3,4,6,7)]
  show "t = login_sid w @ ''.'' @ login_secret w"
    using acc(1) tk *(1,2) by simp
  show "\<exists>owner. sessions (snd (login L a username password w))
                = sessions w @ [\<lparr>s_session_id = login_sid w,
                                  s_token = bcrypt_hash L (login_secret w) 10 (login_salt w),
                                  s_uuid = owner\<rparr>]"
    using acc(2) h *(1,2) by (simp add: login_session_def)
next
  show "bcrypt_hash L (login_secret w) 10 (login_salt w) \<noteq> login_secret w"
    using assms by (simp add: bcrypt_hides_def)
qed

theorem stored_values_hashed_witness:
  "bcrypt_hides sample_libs
   \<and> fst (register sample_libs (sample_auth True) (Some ''alice'') (Some ''S3cret!'') sample_world)
       = Inr ResSuccess
   \<and> map u_password (users alice_world) = [''101112131415161718191a1b1c1d1e1f$S3cret!'']
   \<and> ''101112131415161718191a1b1c1d1e1f$S3cret!'' \<noteq> ''S3cret!''
   \<and> tokenHashing (sample_auth True)
   \<and> fst (alice_login True) = Inr (Token alice_token)
   \<and> alice_token = alice_sid @ ''.'' @ alice_secret
   \<and> map s_token (sessions (snd (alice_login True)))
       = [''464748494a4b4c4d4e4f505152535455$'' @ alice_secret]
   \<and> ''464748494a4b4c4d4e4f505152535455$'' @ alice_secret \<noteq> alice_secret"
proof -
  have e: "find (\<lambda>r. u_username r = ''alice'') (users sample_world) = None"
    by (simp add: sample_world_def)
  have s: "fst (register sample_libs (sample_auth True) (Some ''alice'') (Some ''S3cret!'') sample_world)
             = Inr ResSuccess"
    by (rule register_free(1) [OF sample_knex _ _ e]) simp_all
  have h: "tokenHashing (sample_auth True)" by (simp add: sample_auth_def)
  have st: "map s_token (sessions (snd (alice_login True)))
       = [''464748494a4b4c4d4e4f505152535455$'' @ alice_secret]"
    by (simp add: alice_login_sessions sample_libs_def alice_salt_hex)
  show ?thesis
    using stored_values_hashed [where L = sample_libs and a = "sample_auth True"
          and u = "''alice''" and p = "''S3cret!''" and w = sample_world
          and username = "Some ''alice''" and password = "Some ''S3cret!''" and t = alice_token,
          OF sample_bcrypt_hides]
      sample_bcrypt_hides s h alice_login_token [of True] st
    by (simp add: alice_world_users alice_token_def)
qed

text \<open>
  Claim C8. When a required argument is absent or empty, \<open>register\<close>, \<open>login\<close>,
  \<open>verifyToken\<close> and \<open>logout\<close> throw their precondition error (or the one for the missing
  knex handle) and the world is exactly as before: no statement was issued, nothing was
  drawn from the generator, no row changed.
\<close>

theorem missing_argument_rejected:
  assumes "\<not> truthy x"
  shows "register L a x y w = (Inl (if knex a then UsernamePasswordRequired else KnexNotInitiated), w)
       \<and> register L a y x w = (Inl (if knex a then UsernamePasswordRequired else KnexNotInitiated), w)
       \<and> login L a x y w = (Inl (if knex a then UsernamePasswordRequired else KnexNotInitiated), w)
       \<and> login L a y x w = (Inl (if knex a then UsernamePasswordRequired else KnexNotInitiated), w)
       \<and> verifyToken L a x w = (Inl (if knex a then TokenStringRequired else KnexNotInitiated), w)
       \<and> logout a x w = (Inl (if knex a then SIDRequired else KnexNotInitiated), w)"
  using assms by (simp add: register_def login_def verifyToken_def logout_def)

theorem missing_argument_rejected_witness:
  "\<not> truthy None \<and> \<not> truthy (Some '''')
   \<and> register sample_libs (sample_auth True) None (Some ''S3cret!'') alice_world
       = (Inl UsernamePasswordRequired, alice_world)
   \<and> register sample_libs (sample_auth True) (Some ''bob'') (Some '''') alice_world
       = (Inl UsernamePasswordRequired, alice_world)
   \<and> login sample_libs (sample_auth True) (Some '''') (Some ''S3cret!'') alice_world
       = (Inl UsernamePasswordRequired, alice_world)
   \<and> login sample_libs (sample_auth True) (Some ''alice'') None alice_world
       = (Inl UsernamePasswordRequired, alice_world)
   \<and> verifyToken sample_libs (sample_auth True) (Some '''') alice_world
       = (Inl TokenStringRequired, alice_world)
   \<and> logout (sample_auth True) None alice_world = (Inl SIDRequired, alice_world)"
proof -
  have t: "\<not> truthy None" "\<not> truthy (Some '''')" by (simp_all add: truthy_def)
  show ?thesis
    using missing_argument_rejected [where L = sample_libs and a = "sample_auth True" and y = "Some ''S3cret!''" and w = alice_world, OF t(1)]
      missing_argument_rejected [where L = sample_libs and a = "sample_auth True" and y = "Some ''alice''" and w = alice_world, OF t(1)]
      missing_argument_rejected [where L = sample_libs and a = "sample_auth True" and y = "Some ''bob''" and w = alice_world, OF t(2)]
      missing_argument_rejected [where L = sample_libs and a = "sample_auth True" and y = "Some ''S3cret!''" and w = alice_world, OF t(2)]
      t sample_knex [of True]
    by simp
qed

text \<open>
  Claim C9. The outcome of the middleware is fixed in both directions. It calls \<^verbatim>\<open>next()\<close>
  exactly when the request carries a bearer token that \<open>verifyToken\<close> accepts, the session
  id in it is not empty and a user row has the uuid of that session; \<^verbatim>\<open>req.eauth\<close> is then
  exactly \<^verbatim>\<open>{user: {username, id, token}}\<close> with the username of that row, the uuid of the
  session and the token as presented. In every other case it responds \<open>401 Unauthorized\<close>,
  always the same response.
  The \<^verbatim>\<open>try\<close> block is \<open>middleware_body\<close> at the three calls of this class; for any three
  awaited calls whatever, so also for calls that throw an error of the store, of bcrypt or
  any other, \<open>middleware_body\<close> responds \<open>401 Unauthorized\<close> unless all three resolve, the
  token is verified and a row is found, and then it attaches that context.
  The stored password hash and the stored token do not reach the outcome: two stores that
  agree on the other columns, and in which \<open>verifyToken\<close> gives the same verdict on the
  request's token, give the same outcome, and replacing the password hashes alone never
  changes it.
\<close>

theorem middleware_outcomes:
  "(fst (express_middleware L a req w) = Respond 401 ''Unauthorized''
     \<or> (\<exists>tok sess usr.
           request_token req = Some tok
         \<and> fst (verifyToken L a (Some tok) w) = Inr True
         \<and> hd (split tok CHR ''.'') \<noteq> []
         \<and> find (\<lambda>r. s_session_id r = hd (split tok CHR ''.'')) (sessions w) = Some sess
         \<and> find (\<lambda>r. u_uuid r = s_uuid sess) (users w) = Some usr
         \<and> fst (express_middleware L a req w)
             = Next \<lparr>eauth_user = \<lparr>eu_username = u_username usr,
                                   eu_id = Some (s_uuid sess), eu_token = tok\<rparr>\<rparr>))
   \<and> (request_token req = Some t
        \<and> fst (verifyToken L a (Some t) w) = Inr True
        \<and> hd (split t CHR ''.'') \<noteq> []
        \<and> find (\<lambda>r. s_session_id r = hd (split t CHR ''.'')) (sessions w) = Some s
        \<and> find (\<lambda>r. u_uuid r = s_uuid s) (users w) = Some u \<longrightarrow>
      fst (express_middleware L a req w)
        = Next \<lparr>eauth_user = \<lparr>eu_username = u_username u,
                              eu_id = Some (s_uuid s), eu_token = t\<rparr>\<rparr>)
   \<and> express_middleware L a req w
       = middleware_body (verifyToken L a) (getUserIdFromSessionId a) users_by_uuid req w
   \<and> (fst (middleware_body verify owner lookup req w) = Respond 401 ''Unauthorized''
       \<or> (\<exists>tok w1 uuid w2 usr rest w3.
             request_token req = Some tok \<and> tok \<noteq> []
           \<and> verify (Some tok) w = (Inr True, w1)
           \<and> owner (Some (hd (split tok CHR ''.''))) w1 = (Inr uuid, w2)
           \<and> lookup uuid w2 = (Inr (usr # rest), w3)
           \<and> middleware_body verify owner lookup req w
               = (Next \<lparr>eauth_user = \<lparr>eu_username = u_username usr, eu_id = uuid,
                                      eu_token = tok\<rparr>\<rparr>, w3)))
   \<and> (request_token req = Some t \<and> t \<noteq> []
        \<and> verify (Some t) w = (Inr True, v1)
        \<and> owner (Some (hd (split t CHR ''.''))) v1 = (Inr i, v2)
        \<and> lookup i v2 = (Inr (x # xs), v3) \<longrightarrow>
      middleware_body verify owner lookup req w
        = (Next \<lparr>eauth_user = \<lparr>eu_username = u_username x, eu_id = i, eu_token = t\<rparr>\<rparr>, v3))
   \<and> (map public_session (sessions w') = map public_session (sessions w)
        \<and> map public_user (users w') = map public_user (users w)
        \<and> fst (verifyToken L a (request_token req) w') = fst (verifyToken L a (request_token req) w)
        \<longrightarrow> fst (express_middleware L a req w') = fst (express_middleware L a req w))
   \<and> fst (express_middleware L a req (w\<lparr>users := map (\<lambda>r. r\<lparr>u_password := g r\<rparr>) (users w)\<rparr>))
       = fst (express_middleware L a req w)"
proof (intro conjI impI)
  show "fst (express_middleware L a req w) = Respond 401 ''Unauthorized''
     \<or> (\<exists>tok sess usr.
           request_token req = Some tok
         \<and> fst (verifyToken L a (Some tok) w) = Inr True
         \<and> hd (split tok CHR ''.'') \<noteq> []
         \<and> find (\<lambda>r. s_session_id r = hd (split tok CHR ''.'')) (sessions w) = Some sess
         \<and> find (\<lambda>r. u_uuid r = s_uuid sess) (users w) = Some usr
         \<and> fst (express_middleware L a req w)
             = Next \<lparr>eauth_user = \<lparr>eu_username = u_username usr,
                                   eu_id = Some (s_uuid sess), eu_token = tok\<rparr>\<rparr>)"
    by (rule middleware_denies_or_grants)
next
  assume "request_token req = Some t
        \<and> fst (verifyToken L a (Some t) w) = Inr True
        \<and> hd (split t CHR ''.'') \<noteq> []
        \<and> find (\<lambda>r. s_session_id r = hd (split t CHR ''.'')) (sessions w) = Some s
        \<and> find (\<lambda>r. u_uuid r = s_uuid s) (users w) = Some u"
  then show "fst (express_middleware L a req w)
        = Next \<lparr>eauth_user = \<lparr>eu_username = u_username u,
                              eu_id = Some (s_uuid s), eu_token = t\<rparr>\<rparr>"
    using middleware_grants [of req t L a w s u] by simp
next
  show "express_middleware L a req w
       = middleware_body (verifyToken L a) (getUserIdFromSessionId a) users_by_uuid req w"
    by (rule middleware_is_body)
next
  show "fst (middleware_body verify owner lookup req w) = Respond 401 ''Unauthorized''
       \<or> (\<exists>tok w1 uuid w2 usr rest w3.
             request_token req = Some tok \<and> tok \<noteq> []
           \<and> verify (Some tok) w = (Inr True, w1)
           \<and> owner (Some (hd (split tok CHR ''.''))) w1 = (Inr uuid, w2)
           \<and> lookup uuid w2 = (Inr (usr # rest), w3)
           \<and> middleware_body verify owner lookup req w
               = (Next \<lparr>eauth_user = \<lparr>eu_username = u_username usr, eu_id = uuid,
                                      eu_token = tok\<rparr>\<rparr>, w3))"
    by (rule body_denies_or_grants)
next
  assume "request_token req = Some t \<and> t \<noteq> []
        \<and> verify (Some t) w = (Inr True, v1)
        \<and> owner (Some (hd (split t CHR ''.''))) v1 = (Inr i, v2)
        \<and> lookup i v2 = (Inr (x # xs), v3)"
  then show "middleware_body verify owner lookup req w
        = (Next \<lparr>eauth_user = \<lparr>eu_username = u_username x, eu_id = i, eu_token = t\<rparr>\<rparr>, v3)"
    using body_grants [of req t verify w v1 owner i v2 lookup x xs v3] by simp
next
  assume "map public_session (sessions w') = map public_session (sessions w)
        \<and> map public_user (users w') = map public_user (users w)
        \<and> fst (verifyToken L a (request_token req) w') = fst (verifyToken L a (request_token req) w)"
  then show "fst (express_middleware L a req w') = fst (express_middleware L a req w)"
    using middleware_public_only [of w' w L a req] by simp
next
  show "fst (express_middleware L a req (w\<lparr>users := map (\<lambda>r. r\<lparr>u_password := g r\<rparr>) (users w)\<rparr>))
       = fst (express_middleware L a req w)"
    by (rule middleware_ignores_password)
qed

theorem middleware_outcomes_witness:
  "request_token (bearer_request alice_token) = Some alice_token
   \<and> fst (verifyToken sample_libs (sample_auth True) (Some alice_token) alice_session_world) = Inr True
   \<and> hd (split alice_token CHR ''.'') \<noteq> []
   \<and> find (\<lambda>r. s_session_id r = hd (split alice_token CHR ''.'')) (sessions alice_session_world)
       = Some (hd (sessions alice_session_world))
   \<and> find (\<lambda>r. u_uuid r = s_uuid (hd (sessions alice_session_world))) (users alice_session_world)
       = Some (hd (users alice_session_world))
   \<and> fst (express_middleware sample_libs (sample_auth True)
          (bearer_request alice_token) alice_session_world)
       = Next \<lparr>eauth_user = \<lparr>eu_username = ''alice'',
                             eu_id = Some ''000102030405060708090a0b0c0d0e0f'',
                             eu_token = alice_token\<rparr>\<rparr>
   \<and> fst (express_middleware sample_libs (sample_auth True)
          (bearer_request (alice_sid @ ''.bad'')) alice_session_world)
       = Respond 401 ''Unauthorized''
   \<and> fst (express_middleware sample_libs (sample_auth True)
          \<lparr>headers_authorization = None\<rparr> alice_session_world)
       = Respond 401 ''Unauthorized''
   \<and> fst (express_middleware sample_libs \<lparr>knex = False, tokenHashing = True\<rparr>
          (bearer_request alice_token) alice_session_world)
       = Respond 401 ''Unauthorized''
   \<and> fst (middleware_body (verifyToken sample_libs (sample_auth True))
          (getUserIdFromSessionId (sample_auth True)) store_down
          (bearer_request alice_token) alice_session_world)
       = Respond 401 ''Unauthorized''
   \<and> fst (middleware_body (verifyToken sample_libs (sample_auth True))
          (getUserIdFromSessionId (sample_auth True)) users_by_uuid
          (bearer_request alice_token) alice_session_world)
       = Next \<lparr>eauth_user = \<lparr>eu_username = ''alice'',
                             eu_id = Some ''000102030405060708090a0b0c0d0e0f'',
                             eu_token = alice_token\<rparr>\<rparr>
   \<and> queries (snd (middleware_body (verifyToken sample_libs (sample_auth True))
          (getUserIdFromSessionId (sample_auth True)) users_by_uuid
          (bearer_request alice_token) alice_session_world))
       = queries alice_session_world
           @ [SessionsWhereSid alice_sid, SessionsWhereSid alice_sid,
              UsersWhereUuid (Some ''000102030405060708090a0b0c0d0e0f'')]
   \<and> fst (express_middleware sample_libs (sample_auth True) (bearer_request alice_token)
          (alice_session_world
             \<lparr>users := map (\<lambda>r. r\<lparr>u_password := ''other''\<rparr>) (users alice_session_world)\<rparr>))
       = Next \<lparr>eauth_user = \<lparr>eu_username = ''alice'',
                             eu_id = Some ''000102030405060708090a0b0c0d0e0f'',
                             eu_token = alice_token\<rparr>\<rparr>
   \<and> map public_session (sessions alice_rewritten) = map public_session (sessions alice_session_world)
   \<and> map public_user (users alice_rewritten) = map public_user (users alice_session_world)
   \<and> map u_password (users alice_rewritten) \<noteq> map u_password (users alice_session_world)
   \<and> map s_token (sessions alice_rewritten) \<noteq> map s_token (sessions alice_session_world)
   \<and> fst (verifyToken sample_libs (sample_auth True) (request_token (bearer_request alice_token))
          alice_rewritten)
       = fst (verifyToken sample_libs (sample_auth True) (request_token (bearer_request alice_token))
          alice_session_world)
   \<and> fst (express_middleware sample_libs (sample_auth True)
          (bearer_request alice_token) alice_rewritten)
       = Next \<lparr>eauth_user = \<lparr>eu_username = ''alice'',
                             eu_id = Some ''000102030405060708090a0b0c0d0e0f'',
                             eu_token = alice_token\<rparr>\<rparr>"
proof -
  let ?A = "sample_auth True"
  let ?w = alice_session_world
  let ?ctx = "Next \<lparr>eauth_user = \<lparr>eu_username = ''alice'',
                             eu_id = Some ''000102030405060708090a0b0c0d0e0f'',
                             eu_token = alice_token\<rparr>\<rparr>"
  have ns: "CHR '' '' \<notin> set alice_token" "CHR '' '' \<notin> set (alice_sid @ ''.bad'')"
    by (simp_all add: alice_token_def alice_sid_def alice_secret_def)
  note rt = bearer_request_token [OF ns(1)]
  note rb = bearer_request_token [OF ns(2)]
  have v: "fst (verifyToken sample_libs ?A (Some alice_token) ?w) = Inr True"
    by (simp add: alice_session_world_def alice_verify)
  have sne: "hd (split alice_token CHR ''.'') \<noteq> []"
    by (simp add: alice_token_split alice_sid_def)
  have fs: "find (\<lambda>r. s_session_id r = hd (split alice_token CHR ''.'')) (sessions ?w)
              = Some (hd (sessions ?w))"
    by (simp add: alice_token_split alice_session_rows)
  have fu: "find (\<lambda>r. u_uuid r = s_uuid (hd (sessions ?w))) (users ?w) = Some (hd (users ?w))"
    by (simp add: alice_session_rows alice_world_users)
  have ok: "fst (express_middleware sample_libs ?A (bearer_request alice_token) ?w) = ?ctx"
    using middleware_outcomes [where L = sample_libs and a = ?A
        and req = "bearer_request alice_token" and w = ?w and t = alice_token
        and s = "hd (sessions ?w)" and u = "hd (users ?w)",
        THEN conjunct2, THEN conjunct1] rt v sne fs fu
    by (simp add: alice_session_rows alice_world_users)
  have bad: "fst (express_middleware sample_libs ?A (bearer_request (alice_sid @ ''.bad'')) ?w)
               = Respond 401 ''Unauthorized''"
    using middleware_outcomes [where L = sample_libs and a = ?A
        and req = "bearer_request (alice_sid @ ''.bad'')" and w = ?w, THEN conjunct1]
      rb alice_bad_verify
    by auto
  have none: "fst (express_middleware sample_libs ?A \<lparr>headers_authorization = None\<rparr> ?w)
                = Respond 401 ''Unauthorized''"
    using middleware_outcomes [where L = sample_libs and a = ?A
        and req = "\<lparr>headers_authorization = None\<rparr>" and w = ?w, THEN conjunct1]
    by (auto simp: request_token_def)
  have nok: "fst (express_middleware sample_libs \<lparr>knex = False, tokenHashing = True\<rparr>
                (bearer_request alice_token) ?w) = Respond 401 ''Unauthorized''"
    using middleware_outcomes [where L = sample_libs and a = "\<lparr>knex = False, tokenHashing = True\<rparr>"
        and req = "bearer_request alice_token" and w = ?w, THEN conjunct1] rt
    by (auto simp: verifyToken_def)
  have down: "fst (middleware_body (verifyToken sample_libs ?A) (getUserIdFromSessionId ?A)
                store_down (bearer_request alice_token) ?w) = Respond 401 ''Unauthorized''"
    using middleware_outcomes [where verify = "verifyToken sample_libs ?A"
        and owner = "getUserIdFromSessionId ?A" and lookup = store_down
        and req = "bearer_request alice_token" and w = ?w,
        THEN conjunct2, THEN conjunct2, THEN conjunct2, THEN conjunct1]
    by (auto simp: store_down_def)
  have body: "fst (middleware_body (verifyToken sample_libs ?A) (getUserIdFromSessionId ?A)
                users_by_uuid (bearer_request alice_token) ?w) = ?ctx"
    using middleware_outcomes [where L = sample_libs and a = ?A
        and req = "bearer_request alice_token" and w = ?w,
        THEN conjunct2, THEN conjunct2, THEN conjunct1] ok
    by simp
  let ?uuid = "''000102030405060708090a0b0c0d0e0f''"
  let ?w1 = "issue (SessionsWhereSid alice_sid) ?w"
  let ?w2 = "issue (SessionsWhereSid alice_sid) ?w1"
  let ?w3 = "issue (UsersWhereUuid (Some ?uuid)) ?w2"
  have tne: "alice_token \<noteq> []" by (simp add: alice_token_def)
  have h3: "verifyToken sample_libs ?A (Some alice_token) ?w = (Inr True, ?w1)"
    by (simp add: alice_session_world_def alice_verify)
  have h4: "getUserIdFromSessionId ?A (Some (hd (split alice_token CHR ''.''))) ?w1
              = (Inr (Some ?uuid), ?w2)"
    using owner_lookup [OF sample_knex sne fs, of True "SessionsWhereSid alice_sid"]
    by (simp add: alice_token_split alice_session_rows)
  have h5: "users_by_uuid (Some ?uuid) ?w2 = (Inr (hd (users ?w) # []), ?w3)"
    by (simp add: users_by_uuid_rows issue_def alice_session_rows alice_world_users)
  have stmts: "queries (snd (middleware_body (verifyToken sample_libs ?A)
                  (getUserIdFromSessionId ?A) users_by_uuid (bearer_request alice_token) ?w))
       = queries ?w @ [SessionsWhereSid alice_sid, SessionsWhereSid alice_sid,
                       UsersWhereUuid (Some ?uuid)]"
    using middleware_outcomes [where verify = "verifyToken sample_libs ?A"
        and owner = "getUserIdFromSessionId ?A" and lookup = users_by_uuid
        and req = "bearer_request alice_token" and w = ?w and t = alice_token
        and ?v1.0 = ?w1 and i = "Some ?uuid" and ?v2.0 = ?w2 and x = "hd (users ?w)"
        and xs = "[]" and ?v3.0 = ?w3,
        THEN conjunct2, THEN conjunct2, THEN conjunct2, THEN conjunct2, THEN conjunct1]
      rt tne h3 h4 h5
    by (simp add: issue_def)
  have pw: "fst (express_middleware sample_libs ?A (bearer_request alice_token)
              (?w\<lparr>users := map (\<lambda>r. r\<lparr>u_password := ''other''\<rparr>) (users ?w)\<rparr>)) = ?ctx"
    using middleware_outcomes [where L = sample_libs and a = ?A
        and req = "bearer_request alice_token" and w = ?w and g = "\<lambda>r. ''other''",
        THEN conjunct2, THEN conjunct2, THEN conjunct2, THEN conjunct2, THEN conjunct2,
        THEN conjunct2] ok
    by simp
  have ps: "map public_session (sessions alice_rewritten) = map public_session (sessions ?w)"
    and pu: "map public_user (users alice_rewritten) = map public_user (users ?w)"
    and dp: "map u_password (users alice_rewritten) \<noteq> map u_password (users ?w)"
    and dt: "map s_token (sessions alice_rewritten) \<noteq> map s_token (sessions ?w)"
    by (simp_all add: alice_rewritten_def alice_session_rows alice_world_users
        public_session_def public_user_def)
  have ve: "fst (verifyToken sample_libs ?A (request_token (bearer_request alice_token)) alice_rewritten)
       = fst (verifyToken sample_libs ?A (request_token (bearer_request alice_token)) ?w)"
    by (simp add: rt v alice_rewritten_verify)
  have rw: "fst (express_middleware sample_libs ?A (bearer_request alice_token) alice_rewritten) = ?ctx"
    using middleware_outcomes [where L = sample_libs and a = ?A
        and req = "bearer_request alice_token" and w = ?w and w' = alice_rewritten,
        THEN conjunct2, THEN conjunct2, THEN conjunct2, THEN conjunct2, THEN conjunct2,
        THEN conjunct1] ps pu ve ok
    by simp
  show ?thesis
    using rt v sne fs fu ok bad none nok down body stmts pw ps pu dp dt ve rw by simp
qed

text \<open>
  Claim C10. For a non-empty username and password, when no row has the username or
  \<^verbatim>\<open>bcrypt.compare\<close> rejects the password, \<open>login\<close> returns \<^verbatim>\<open>false\<close> and inserts nothing: the
  sessions table and the users table are as before and the only statement issued is the
  lookup of the user.
\<close>

theorem failed_login_inserts_nothing:
  assumes "knex a" and "u \<noteq> []" and "p \<noteq> []"
    and "find (\<lambda>r. u_username r = u) (users w) = None
         \<or> (\<exists>r. find (\<lambda>r. u_username r = u) (users w) = Some r
                \<and> bcrypt_compare L (Some p) (u_password r) = Inr False)"
  shows "fst (login L a (Some u) (Some p) w) = Inr Failed
       \<and> sessions (snd (login L a (Some u) (Some p) w)) = sessions w
       \<and> users (snd (login L a (Some u) (Some p) w)) = users w
       \<and> queries (snd (login L a (Some u) (Some p) w)) = queries w @ [UsersWhereUsername u]"
  using login_rejects [OF assms] by (simp add: issue_def)

theorem failed_login_inserts_nothing_witness:
  "knex (sample_auth True) \<and> ''alice'' \<noteq> [] \<and> ''wrong'' \<noteq> []
   \<and> find (\<lambda>r. u_username r = ''alice'') (users alice_world) = Some (hd (users alice_world))
   \<and> bcrypt_compare sample_libs (Some ''wrong'') (u_password (hd (users alice_world))) = Inr False
   \<and> fst (login sample_libs (sample_auth True) (Some ''alice'') (Some ''wrong'') alice_world) = Inr Failed
   \<and> sessions (snd (login sample_libs (sample_auth True) (Some ''alice'') (Some ''wrong'') alice_world))
       = sessions alice_world"
proof -
  note k = sample_knex [of True]
  have ne: "''alice'' \<noteq> []" "''wrong'' \<noteq> []" by simp_all
  have r: "find (\<lambda>r. u_username r = ''alice'') (users alice_world) = Some (hd (users alice_world))"
    by (simp add: alice_world_users)
  have c: "bcrypt_compare sample_libs (Some ''wrong'') (u_password (hd (users alice_world))) = Inr False"
    by (simp add: alice_world_users sample_libs_def)
  have d: "find (\<lambda>r. u_username r = ''alice'') (users alice_world) = None
         \<or> (\<exists>r. find (\<lambda>r. u_username r = ''alice'') (users alice_world) = Some r
                \<and> bcrypt_compare sample_libs (Some ''wrong'') (u_password r) = Inr False)"
    using r c by simp
  show ?thesis
    using failed_login_inserts_nothing [OF k ne d] k r c by simp
qed

end
